theory Spec2Isabelle
  imports Main "HOL-Library.Monad_Syntax" "HOL-Library.Char_ord" "HOL-Library.List_Lexorder"
begin

section \<open>Values produced by the YAML parser\<close>

text \<open>
  \<^verbatim>\<open>yaml.load\<close> (the js-yaml library) returns an arbitrary JavaScript value. The
  values a YAML document can denote are modelled by \<open>jsval\<close>. Numbers are the integers
  (a YAML float is outside the model). An object is the list of its own properties in
  insertion order.
\<close>

datatype jsval =
    JUndefined
  | JNull
  | JBool bool
  | JNum int
  | JStr string
  | JArr "jsval list"
  | JObj "(string \<times> jsval) list"

text \<open>JavaScript truthiness, as used by \<^verbatim>\<open>if (!data)\<close> and \<^verbatim>\<open>a || b\<close>.\<close>

fun truthy :: "jsval \<Rightarrow> bool" where
  "truthy JUndefined = False"
| "truthy JNull = False"
| "truthy (JBool b) = b"
| "truthy (JNum n) = (n \<noteq> 0)"
| "truthy (JStr s) = (s \<noteq> [])"
| "truthy (JArr xs) = True"
| "truthy (JObj kvs) = True"

text \<open>\<^verbatim>\<open>typeof\<close>, \<^verbatim>\<open>Array.isArray\<close>, and the payload of a value of a known type.\<close>

fun js_typeof :: "jsval \<Rightarrow> string" where
  "js_typeof JUndefined = ''undefined''"
| "js_typeof JNull = ''object''"
| "js_typeof (JBool b) = ''boolean''"
| "js_typeof (JNum n) = ''number''"
| "js_typeof (JStr s) = ''string''"
| "js_typeof (JArr xs) = ''object''"
| "js_typeof (JObj kvs) = ''object''"

fun isArray :: "jsval \<Rightarrow> bool" where
  "isArray (JArr xs) = True"
| "isArray v = False"

fun the_string :: "jsval \<Rightarrow> string" where
  "the_string (JStr s) = s"
| "the_string v = []"

fun the_array :: "jsval \<Rightarrow> jsval list" where
  "the_array (JArr xs) = xs"
| "the_array v = []"

fun the_number :: "jsval \<Rightarrow> int" where
  "the_number (JNum n) = n"
| "the_number v = 0"

text \<open>
  The property read \<^verbatim>\<open>obj[key]\<close>. On \<^verbatim>\<open>null\<close> and \<^verbatim>\<open>undefined\<close> JavaScript throws a
  TypeError, which is the result \<open>None\<close> here and in every function below that can
  propagate it. On an object the own property is read, \<^verbatim>\<open>undefined\<close> when absent. The
  keys this program reads are fixed field names of the documentation schema; none of them
  is \<^verbatim>\<open>length\<close>, an index or a member of a prototype, so on a string, an array, a
  number or a boolean the read is \<^verbatim>\<open>undefined\<close>.
\<close>

fun own_property :: "jsval \<Rightarrow> string \<Rightarrow> jsval" where
  "own_property (JObj kvs) key =
     (case map_of kvs key of Some v \<Rightarrow> v | None \<Rightarrow> JUndefined)"
| "own_property v key = JUndefined"

definition js_get :: "jsval \<Rightarrow> string \<Rightarrow> jsval option" where
  "js_get obj key =
     (if obj = JNull \<or> obj = JUndefined then None else Some (own_property obj key))"

text \<open>
  \<^verbatim>\<open>parseInt(value, 10)\<close>: leading white space is skipped, an optional sign is read,
  then the longest run of decimal digits; with no digit the result is NaN (\<open>None\<close>).
\<close>

definition is_js_space :: "char \<Rightarrow> bool" where
  "is_js_space c = (c \<in> set [CHR '' '', CHR 0x09, CHR 0x0A, CHR 0x0B, CHR 0x0C, CHR 0x0D])"

definition is_digit :: "char \<Rightarrow> bool" where
  "is_digit c = (c \<in> set ''0123456789'')"

definition digit_val :: "char \<Rightarrow> nat" where
  "digit_val c = of_char c - 48"

definition parseInt10 :: "string \<Rightarrow> int option" where
  "parseInt10 s =
     (let t = dropWhile is_js_space s;
          neg = (case t of c # r \<Rightarrow> c = CHR ''-'' | [] \<Rightarrow> False);
          u = (case t of c # r \<Rightarrow> (if c = CHR ''-'' \<or> c = CHR ''+'' then r else t)
              | [] \<Rightarrow> t);
          ds = takeWhile is_digit u
      in if ds = [] then None
         else Some ((if neg then - 1 else 1) *
                    int (foldl (\<lambda>a c. 10 * a + digit_val c) 0 ds)))"

section \<open>Paths and the file system\<close>

text \<open>
  An absolute, normalised POSIX path is the list of its components; the file system root
  \<^verbatim>\<open>/\<close> is the empty list. \<open>join\<close>, \<open>dirname\<close> and \<open>basename\<close> are Node's
  \<^verbatim>\<open>path\<close> functions on such paths (joining with a plain file name).
\<close>

type_synonym path = "string list"

definition root :: path where
  "root = []"

definition join :: "path \<Rightarrow> string \<Rightarrow> path" where
  "join dir name = dir @ [name]"

definition dirname :: "path \<Rightarrow> path" where
  "dirname p = butlast p"

definition basename :: "path \<Rightarrow> string" where
  "basename p = (if p = [] then [] else last p)"

definition endsWith :: "string \<Rightarrow> string \<Rightarrow> bool" where
  "endsWith s suf = (length suf \<le> length s \<and> drop (length s - length suf) s = suf)"

text \<open>\<^verbatim>\<open>basename(p, ext)\<close>: the extension is removed unless it is the whole name.\<close>

definition basename_ext :: "path \<Rightarrow> string \<Rightarrow> string" where
  "basename_ext p ext =
     (let b = basename p
      in if ext \<noteq> [] \<and> endsWith b ext \<and> b \<noteq> ext
         then take (length b - length ext) b
         else b)"

text \<open>The text of a path, as a template literal prints it.\<close>

definition path_text :: "path \<Rightarrow> string" where
  "path_text p = (if p = [] then ''/'' else concat (map (\<lambda>c. ''/'' @ c) p))"

text \<open>
  The file system is the finite table of its entries; the first entry of a path is the
  current one. The root directory always exists. Permissions and symbolic links are not
  modelled.
\<close>

datatype node = File string | Dir

type_synonym fs = "(path \<times> node) list"

definition stat :: "fs \<Rightarrow> path \<Rightarrow> node option" where
  "stat fs p = (if p = [] then Some Dir else map_of fs p)"

definition existsSync :: "fs \<Rightarrow> path \<Rightarrow> bool" where
  "existsSync fs p = (stat fs p \<noteq> None)"

definition isDirectory :: "fs \<Rightarrow> path \<Rightarrow> bool" where
  "isDirectory fs p = (stat fs p = Some Dir)"

definition isFile :: "fs \<Rightarrow> path \<Rightarrow> bool" where
  "isFile fs p = (case stat fs p of Some (File c) \<Rightarrow> True | _ \<Rightarrow> False)"

text \<open>The errors the file system calls of this program throw.\<close>

datatype fs_error = ENOENT | EISDIR | ENOTDIR

text \<open>\<^verbatim>\<open>readFileSync\<close>: the content, or the error thrown.\<close>

definition readFileSync :: "fs \<Rightarrow> path \<Rightarrow> fs_error + string" where
  "readFileSync fs p =
     (case stat fs p of
        Some (File c) \<Rightarrow> Inr c
      | Some Dir \<Rightarrow> Inl EISDIR
      | None \<Rightarrow> Inl ENOENT)"

text \<open>\<^verbatim>\<open>readdirSync\<close>: the names in a directory; \<open>None\<close> when it throws.\<close>

definition readdirSync :: "fs \<Rightarrow> path \<Rightarrow> string list option" where
  "readdirSync fs d =
     (if isDirectory fs d
      then Some (remdups (map (\<lambda>e. last (fst e))
                   (filter (\<lambda>e. fst e \<noteq> [] \<and> butlast (fst e) = d) fs)))
      else None)"

text \<open>
  \<^verbatim>\<open>writeFileSync\<close>: the file system with the file created or replaced, or the error
  thrown (the target is a directory, or its parent is missing or is not a directory).
\<close>

definition writeFileSync :: "fs \<Rightarrow> path \<Rightarrow> string \<Rightarrow> fs_error + fs" where
  "writeFileSync fs p content =
     (if isDirectory fs p then Inl EISDIR
      else if \<not> existsSync fs (butlast p) then Inl ENOENT
      else if \<not> isDirectory fs (butlast p) then Inl ENOTDIR
      else Inr ((p, File content) # fs))"

section \<open>utils.ts\<close>

text \<open>
  \<open>findDocsDir\<close>: the loop over \<open>currentDir\<close>, started at the working directory.
\<close>

function findDocsDir_from :: "fs \<Rightarrow> path \<Rightarrow> path option" where
  "findDocsDir_from fs currentDir =
     (if currentDir \<noteq> root then
        (let docsPath = join currentDir ''docs'' in
         if existsSync fs docsPath \<and> isDirectory fs docsPath then Some docsPath
         else (let parentDir = dirname currentDir in
               if parentDir = currentDir then None
               else findDocsDir_from fs parentDir))
      else None)"
  by pat_completeness auto
termination
  by (relation "measure (\<lambda>(fs, p). length p)") (auto simp: root_def dirname_def)

declare findDocsDir_from.simps [simp del]

definition findDocsDir :: "fs \<Rightarrow> path \<Rightarrow> path option" where
  "findDocsDir fs cwd = findDocsDir_from fs cwd"

definition findYamlFiles :: "fs \<Rightarrow> path \<Rightarrow> path list" where
  "findYamlFiles fs dir =
     (if \<not> existsSync fs dir then []
      else (case readdirSync fs dir of
              None \<Rightarrow> []
            | Some entries \<Rightarrow>
                sort (map (\<lambda>e. join dir e)
                  (filter (\<lambda>e. isFile fs (join dir e) \<and>
                                (endsWith e ''.yaml'' \<or> endsWith e ''.yml''))
                     entries))))"

text \<open>
  The parser \<^verbatim>\<open>yaml.load\<close> belongs to a library; it is a parameter of the model:
  the value a text denotes, or \<open>None\<close> when the parser throws.
\<close>

type_synonym yaml_load = "string \<Rightarrow> jsval option"

definition loadYaml :: "yaml_load \<Rightarrow> fs \<Rightarrow> path \<Rightarrow> jsval" where
  "loadYaml Y fs filePath =
     (case readFileSync fs filePath of
        Inl e \<Rightarrow> JNull
      | Inr content \<Rightarrow> (case Y content of None \<Rightarrow> JNull | Some parsed \<Rightarrow> parsed))"

definition getString :: "jsval \<Rightarrow> string \<Rightarrow> string option" where
  "getString obj key =
     do { value \<leftarrow> js_get obj key;
          if js_typeof value = ''string'' then Some (the_string value) else Some [] }"

definition getNestedString :: "jsval \<Rightarrow> string \<Rightarrow> string \<Rightarrow> string option" where
  "getNestedString obj parent child =
     do { parentObj \<leftarrow> js_get obj parent;
          if js_typeof parentObj = ''object'' \<and> parentObj \<noteq> JNull
          then do { value \<leftarrow> js_get parentObj child;
                    if js_typeof value = ''string'' then Some (the_string value) else Some [] }
          else Some [] }"

definition getArray :: "jsval \<Rightarrow> string \<Rightarrow> jsval list option" where
  "getArray obj key =
     do { value \<leftarrow> js_get obj key;
          if isArray value then Some (the_array value) else Some [] }"

definition getNumber :: "jsval \<Rightarrow> string \<Rightarrow> int option" where
  "getNumber obj key =
     do { value \<leftarrow> js_get obj key;
          if js_typeof value = ''number'' then Some (the_number value)
          else if js_typeof value = ''string''
          then (case parseInt10 (the_string value) of
                  Some parsed \<Rightarrow> Some parsed
                | None \<Rightarrow> Some 0)
          else Some 0 }"

section \<open>check.ts\<close>

subsection \<open>The counters and the console\<close>

text \<open>
  A line of standard output. The five logging functions print a tagged line; every other
  \<^verbatim>\<open>console.log\<close> prints an untagged one. \<open>render\<close> gives the text of a line; the
  glyphs of the source are their UTF-8 bytes.
\<close>

datatype line = CHECK string | PASS string | WARN string | ERROR string | HINT string
  | INFO string | OUT string

definition hbar :: string where
  "hbar = [CHR 0xE2, CHR 0x94, CHR 0x81]"

definition tick :: string where
  "tick = [CHR 0xE2, CHR 0x9C, CHR 0x93]"

definition warning_sign :: string where
  "warning_sign = [CHR 0xE2, CHR 0x9A, CHR 0xA0]"

definition ballot_x :: string where
  "ballot_x = [CHR 0xE2, CHR 0x9C, CHR 0x97]"

definition bulb :: string where
  "bulb = [CHR 0xF0, CHR 0x9F, CHR 0x92, CHR 0xA1]"

definition repeat :: "string \<Rightarrow> nat \<Rightarrow> string" where
  "repeat s n = concat (replicate n s)"

fun render :: "line \<Rightarrow> string" where
  "render (CHECK m) = ''[CHECK] '' @ m"
| "render (PASS m) = ''[PASS] '' @ m"
| "render (WARN m) = ''[WARN] '' @ m"
| "render (ERROR m) = ''[ERROR] '' @ m"
| "render (HINT h) = ''        '' @ bulb @ '' '' @ h"
| "render (INFO m) = ''[INFO] '' @ m"
| "render (OUT s) = s"

text \<open>Decimal text of a counter or a length inside a template literal.\<close>

fun string_of_nat :: "nat \<Rightarrow> string" where
  "string_of_nat n =
     (if n < 10 then [char_of (48 + n)]
      else string_of_nat (n div 10) @ [char_of (48 + n mod 10)])"

declare string_of_nat.simps [simp del]

text \<open>
  The module-level object \<open>result\<close> and the standard output of the process, as one state
  that every function takes and returns.
\<close>

record world =
  totalChecks :: nat
  totalErrors :: nat
  totalWarnings :: nat
  console :: "line list"

definition result_init :: world where
  "result_init = \<lparr>totalChecks = 0, totalErrors = 0, totalWarnings = 0, console = []\<rparr>"

definition console_log :: "string \<Rightarrow> world \<Rightarrow> world" where
  "console_log s st = st\<lparr>console := console st @ [OUT s]\<rparr>"

definition section_title :: "string \<Rightarrow> string" where
  "section_title t = [CHR 0x0A] @ repeat hbar 3 @ '' '' @ t @ '' '' @ repeat hbar 3"

definition logCheck :: "string \<Rightarrow> bool \<Rightarrow> world \<Rightarrow> world" where
  "logCheck message verbose st =
     (let st = st\<lparr>totalChecks := totalChecks st + 1\<rparr>
      in if verbose then st\<lparr>console := console st @ [CHECK message]\<rparr> else st)"

definition logPass :: "string \<Rightarrow> bool \<Rightarrow> world \<Rightarrow> world" where
  "logPass message verbose st =
     (if verbose then st\<lparr>console := console st @ [PASS message]\<rparr> else st)"

definition logWarn :: "string \<Rightarrow> world \<Rightarrow> world" where
  "logWarn message st =
     (let st = st\<lparr>totalWarnings := totalWarnings st + 1\<rparr>
      in st\<lparr>console := console st @ [WARN message]\<rparr>)"

definition logError :: "string \<Rightarrow> string option \<Rightarrow> world \<Rightarrow> world" where
  "logError message hint st =
     (let st = st\<lparr>totalErrors := totalErrors st + 1\<rparr>;
          st = st\<lparr>console := console st @ [ERROR message]\<rparr>
      in case hint of
           Some h \<Rightarrow> (if h \<noteq> [] then st\<lparr>console := console st @ [HINT h]\<rparr>
                      else st)
         | None \<Rightarrow> st)"

definition logInfo :: "string \<Rightarrow> bool \<Rightarrow> world \<Rightarrow> world" where
  "logInfo message verbose st =
     (if verbose then st\<lparr>console := console st @ [INFO message]\<rparr> else st)"

subsection \<open>Loops whose body may throw\<close>

fun forEachM :: "('a \<Rightarrow> 's \<Rightarrow> 's option) \<Rightarrow> 'a list \<Rightarrow> 's \<Rightarrow> 's option" where
  "forEachM f [] s = Some s"
| "forEachM f (x # xs) s =
     (case f x s of None \<Rightarrow> None | Some s' \<Rightarrow> forEachM f xs s')"

fun mapM :: "('a \<Rightarrow> 'b option) \<Rightarrow> 'a list \<Rightarrow> 'b list option" where
  "mapM f [] = Some []"
| "mapM f (x # xs) =
     (case f x of None \<Rightarrow> None
      | Some y \<Rightarrow> (case mapM f xs of None \<Rightarrow> None | Some ys \<Rightarrow> Some (y # ys)))"

text \<open>\<^verbatim>\<open>Array.prototype.some\<close>: stops at the first element the callback accepts.\<close>

fun someM :: "('a \<Rightarrow> bool option) \<Rightarrow> 'a list \<Rightarrow> bool option" where
  "someM f [] = Some False"
| "someM f (x # xs) =
     (case f x of None \<Rightarrow> None | Some b \<Rightarrow> (if b then Some True else someM f xs))"

subsection \<open>The category checks\<close>

definition checkFileExists ::
  "fs \<Rightarrow> path \<Rightarrow> string \<Rightarrow> bool \<Rightarrow> string option
      \<Rightarrow> world \<Rightarrow> bool \<times> world" where
  "checkFileExists fs file label verbose templateType st =
     (let st = logCheck (''Checking for '' @ label) verbose st
      in if existsSync fs file then (True, logPass (label @ '' found'') verbose st)
         else (let hint = (case templateType of
                             Some t \<Rightarrow>
                               (if t \<noteq> [] then Some (''Get template with: pdocs template '' @ t)
                                else None)
                           | None \<Rightarrow> None)
               in (False, logError (label @ '' missing: '' @ path_text file) hint st)))"

text \<open>The two-character string of two double quotes, written \<^verbatim>\<open>'""'\<close> in the source.\<close>

definition two_quotes :: string where
  "two_quotes = [CHR 0x22, CHR 0x22]"

definition apostrophe :: string where
  "apostrophe = [CHR 0x27]"

definition checkYamlField ::
  "yaml_load \<Rightarrow> fs \<Rightarrow> path \<Rightarrow> string \<Rightarrow> string
      \<Rightarrow> world \<Rightarrow> (bool \<times> world) option" where
  "checkYamlField Y fs file field label st =
     (if \<not> existsSync fs file then Some (False, st)
      else (let data = loadYaml Y fs file
            in if \<not> truthy data then Some (False, st)
               else do {
                 value \<leftarrow> getString data field;
                 if value = [] \<or> value = two_quotes
                 then Some (False,
                        logWarn (label @ '': '' @ apostrophe @ field @ apostrophe
                                 @ '' is empty in '' @ basename file) st)
                 else Some (True, st) }))"

definition checkPrd :: "yaml_load \<Rightarrow> fs \<Rightarrow> path \<Rightarrow> bool
    \<Rightarrow> world \<Rightarrow> world option" where
  "checkPrd Y fs docsDir verbose st =
     (let prdFile = join docsDir ''product-requirements.yaml'';
          st = console_log (section_title ''Product Requirements Document'') st;
          (found, st) = checkFileExists fs prdFile ''Product Requirements Document'' verbose
                          (Some ''product-requirements'') st
      in if \<not> found then Some st
         else do {
           (r, st) \<leftarrow> checkYamlField Y fs prdFile ''project_name'' ''PRD'' st;
           (r, st) \<leftarrow> checkYamlField Y fs prdFile ''summary'' ''PRD'' st;
           (r, st) \<leftarrow> checkYamlField Y fs prdFile ''goal'' ''PRD'' st;
           let data = loadYaml Y fs prdFile;
           if truthy data then do {
             features \<leftarrow> getArray data ''features'';
             let st = logInfo (''Features defined in PRD: '' @ string_of_nat (length features))
                        verbose st;
             if length features = 0 then Some (logWarn ''No features defined in PRD'' st)
             else Some st }
           else Some st })"

definition checkUserFlows_each ::
  "yaml_load \<Rightarrow> fs \<Rightarrow> bool \<Rightarrow> path \<Rightarrow> world
      \<Rightarrow> world option" where
  "checkUserFlows_each Y fs verbose flowFile st =
     (let flowName = basename_ext flowFile ''.yaml'';
          st = logCheck (''Checking flow: '' @ flowName) verbose st;
          data = loadYaml Y fs flowFile
      in if truthy data then do {
           primaryFlows \<leftarrow> getArray data ''primary_flows'';
           if length primaryFlows = 0 then Some (logWarn (''No flows defined in '' @ flowName) st)
           else Some st }
         else Some st)"

definition checkUserFlows :: "yaml_load \<Rightarrow> fs \<Rightarrow> path \<Rightarrow> bool
    \<Rightarrow> world \<Rightarrow> world option" where
  "checkUserFlows Y fs docsDir verbose st =
     (let flowsDir = join docsDir ''user-flows'';
          st = console_log (section_title ''User Flows'') st
      in if \<not> existsSync fs flowsDir
         then Some (logError (''User flows directory missing: '' @ path_text flowsDir)
                      (Some ''Get template with: pdocs template user-flow'') st)
         else (let flowFiles = findYamlFiles fs flowsDir;
                   st = logInfo (''User flow files found: '' @ string_of_nat (length flowFiles))
                          verbose st
               in if length flowFiles = 0 then Some (logWarn ''No user flow files found'' st)
                  else forEachM (checkUserFlows_each Y fs verbose) flowFiles st))"

text \<open>
  The loops over story and feature files also carry the two local tallies
  \<open>completeCount\<close> and \<open>incompleteCount\<close>.
\<close>

type_synonym tally = "world \<times> nat \<times> nat"

text \<open>\<^verbatim>\<open>String.prototype.includes\<close>.\<close>

definition str_includes :: "string \<Rightarrow> string \<Rightarrow> bool" where
  "str_includes s sub =
     list_ex (\<lambda>k. take (length sub) (drop k s) = sub) [0 ..< Suc (length s)]"

definition checkUserStories_each :: "yaml_load \<Rightarrow> fs \<Rightarrow> path \<Rightarrow>
    tally \<Rightarrow> tally option" where
  "checkUserStories_each Y fs storyFile t =
     (case t of (st, completeCount, incompleteCount) \<Rightarrow>
        (let data = loadYaml Y fs storyFile
         in if \<not> truthy data then Some (st, completeCount, incompleteCount)
            else do {
              storyId \<leftarrow> getString data ''story_id'';
              status \<leftarrow> getString data ''status'';
              let completeCount = (if status = ''complete'' then completeCount + 1
                                   else completeCount);
              let incompleteCount = (if status = ''complete'' then incompleteCount
                                     else incompleteCount + 1);
              asA \<leftarrow> getNestedString data ''user_story'' ''as_a'';
              if asA = [] \<or> asA = two_quotes \<or> str_includes asA ''[type''
              then Some (logWarn (''Story '' @ storyId @ '' has incomplete user story definition'')
                           st,
                         completeCount, incompleteCount)
              else Some (st, completeCount, incompleteCount) }))"

definition checkUserStories :: "yaml_load \<Rightarrow> fs \<Rightarrow> path \<Rightarrow> bool
    \<Rightarrow> world \<Rightarrow> world option" where
  "checkUserStories Y fs docsDir verbose st =
     (let storiesDir = join docsDir ''user-stories'';
          st = console_log (section_title ''User Stories'') st
      in if \<not> existsSync fs storiesDir
         then Some (logError (''User stories directory missing: '' @ path_text storiesDir)
                      (Some ''Get template with: pdocs template user-story'') st)
         else (let storyFiles = findYamlFiles fs storiesDir;
                   st = logInfo (''User story files found: '' @ string_of_nat (length storyFiles))
                          verbose st
               in if length storyFiles = 0 then Some (logWarn ''No user story files found'' st)
                  else do {
                    (st, completeCount, incompleteCount) \<leftarrow>
                       forEachM (checkUserStories_each Y fs) storyFiles (st, 0, 0);
                    let st = logInfo (''Complete stories: '' @ string_of_nat completeCount)
                               verbose st;
                    Some (logInfo (''Incomplete stories: '' @ string_of_nat incompleteCount)
                            verbose st) }))"

definition checkFeatureSpecs_each :: "yaml_load \<Rightarrow> fs \<Rightarrow> path \<Rightarrow>
    tally \<Rightarrow> tally option" where
  "checkFeatureSpecs_each Y fs featureFile t =
     (case t of (st, completeCount, incompleteCount) \<Rightarrow>
        (let data = loadYaml Y fs featureFile
         in if \<not> truthy data then Some (st, completeCount, incompleteCount)
            else do {
              featureId \<leftarrow> getString data ''feature_id'';
              status \<leftarrow> getString data ''status'';
              let completeCount = (if status = ''complete'' then completeCount + 1
                                   else completeCount);
              let incompleteCount = (if status = ''complete'' then incompleteCount
                                     else incompleteCount + 1);
              (r, st) \<leftarrow> checkYamlField Y fs featureFile ''summary''
                           (''Feature '' @ featureId) st;
              Some (st, completeCount, incompleteCount) }))"

definition checkFeatureSpecs :: "yaml_load \<Rightarrow> fs \<Rightarrow> path \<Rightarrow> bool
    \<Rightarrow> world \<Rightarrow> world option" where
  "checkFeatureSpecs Y fs docsDir verbose st =
     (let featuresDir = join docsDir ''feature-specs'';
          st = console_log (section_title ''Feature Specifications'') st
      in if \<not> existsSync fs featuresDir
         then Some (logError (''Feature specs directory missing: '' @ path_text featuresDir)
                      (Some ''Get template with: pdocs template feature-spec'') st)
         else (let featureFiles = findYamlFiles fs featuresDir;
                   st = logInfo (''Feature spec files found: '' @ string_of_nat (length
                       featureFiles))
                          verbose st
               in if length featureFiles = 0 then Some (logWarn ''No feature spec files found'' st)
                  else do {
                    (st, completeCount, incompleteCount) \<leftarrow>
                       forEachM (checkFeatureSpecs_each Y fs) featureFiles (st, 0, 0);
                    let st = logInfo (''Complete features: '' @ string_of_nat completeCount)
                        verbose st;
                    Some (logInfo (''Incomplete features: '' @ string_of_nat incompleteCount)
                            verbose st) }))"

definition checkSystemDesign :: "yaml_load \<Rightarrow> fs \<Rightarrow> path \<Rightarrow> bool
    \<Rightarrow> world \<Rightarrow> world option" where
  "checkSystemDesign Y fs docsDir verbose st =
     (let systemFile = join docsDir ''system-design.yaml'';
          st = console_log (section_title ''System Design'') st;
          (found, st) = checkFileExists fs systemFile ''System Design'' verbose
                          (Some ''system-design'') st
      in if \<not> found then Some st
         else do {
           (r, st) \<leftarrow> checkYamlField Y fs systemFile ''goal'' ''System Design'' st;
           let data = loadYaml Y fs systemFile;
           if truthy data then do {
             techStack \<leftarrow> getString data ''tech_stack'';
             if techStack = [] then Some (logWarn ''No tech stack defined in system design'' st)
             else Some st }
           else Some st })"

text \<open>\<^verbatim>\<open>Object.keys(v).length\<close> for a truthy value (a number or a boolean has no keys).\<close>

fun object_keys_length :: "jsval \<Rightarrow> nat" where
  "object_keys_length (JObj kvs) = length (remdups (map fst kvs))"
| "object_keys_length (JArr xs) = length xs"
| "object_keys_length (JStr s) = length s"
| "object_keys_length v = 0"

definition checkApiContracts :: "yaml_load \<Rightarrow> fs \<Rightarrow> path \<Rightarrow> bool
    \<Rightarrow> world \<Rightarrow> world option" where
  "checkApiContracts Y fs docsDir verbose st =
     (let apiFile = join docsDir ''api-contracts.yaml'';
          st = console_log (section_title ''API Contracts'') st;
          (found, st) = checkFileExists fs apiFile ''API Contracts'' verbose
                          (Some ''api-contracts'') st
      in if \<not> found then Some st
         else (let data = loadYaml Y fs apiFile
               in if truthy data then do {
                    paths \<leftarrow> js_get data ''paths'';
                    let endpointCount = (if truthy paths then object_keys_length paths else 0);
                    let st = logInfo (''API endpoints defined: '' @ string_of_nat endpointCount)
                               verbose st;
                    if endpointCount = 0 then Some (logWarn ''No API endpoints defined'' st)
                    else Some st }
                  else Some st))"

definition checkDataPlan :: "yaml_load \<Rightarrow> fs \<Rightarrow> path \<Rightarrow> bool
    \<Rightarrow> world \<Rightarrow> world option" where
  "checkDataPlan Y fs docsDir verbose st =
     (let dataFile = join docsDir ''data-plan.yaml'';
          st = console_log (section_title ''Data Plan'') st;
          (found, st) = checkFileExists fs dataFile ''Data Plan'' verbose (Some ''data-plan'') st
      in if \<not> found then Some st
         else (let data = loadYaml Y fs dataFile
               in if truthy data then do {
                    dataSources \<leftarrow> getArray data ''data_sources'';
                    if length dataSources > 0
                    then Some (logInfo (''Data sources defined: ''
                                        @ string_of_nat (length dataSources))
                                 verbose st)
                    else Some st }
                  else Some st))"

definition checkDesignSpec :: "yaml_load \<Rightarrow> fs \<Rightarrow> path \<Rightarrow> bool
    \<Rightarrow> world \<Rightarrow> world option" where
  "checkDesignSpec Y fs docsDir verbose st =
     (let designFile = join docsDir ''design-spec.yaml'';
          st = console_log (section_title ''Design Specification'') st;
          (found, st) = checkFileExists fs designFile ''Design Specification'' verbose
                          (Some ''design-spec'') st
      in if \<not> found then Some st
         else do {
           (r, st) \<leftarrow> checkYamlField Y fs designFile ''design_goals'' ''Design Spec'' st;
           Some st })"

subsection \<open>Cross references\<close>

text \<open>The identifiers declared by the \<open>features\<close> array of the PRD.\<close>

definition checkCrossReferences_featureIds :: "jsval list \<Rightarrow> string list option" where
  "checkCrossReferences_featureIds features =
     do { ids \<leftarrow> mapM (\<lambda>f. if js_typeof f = ''object'' \<and> f \<noteq> JNull
                           then getString f ''id''
                           else Some []) features;
          Some (filter (\<lambda>id. id \<noteq> []) ids) }"

definition checkCrossReferences_hasSpec ::
  "yaml_load \<Rightarrow> fs \<Rightarrow> path list \<Rightarrow> string \<Rightarrow> bool
      option" where
  "checkCrossReferences_hasSpec Y fs featureFiles featureId =
     someM (\<lambda>file. let data = loadYaml Y fs file
                   in if \<not> truthy data then Some False
                      else do { fileFeatureId \<leftarrow> getString data ''feature_id'';
                                Some (fileFeatureId = featureId) })
       featureFiles"

definition checkCrossReferences_feature ::
  "yaml_load \<Rightarrow> fs \<Rightarrow> bool \<Rightarrow> path list \<Rightarrow> string
      \<Rightarrow> world \<Rightarrow> world option" where
  "checkCrossReferences_feature Y fs verbose featureFiles featureId st =
     (let st = logCheck (''Checking if '' @ featureId @ '' has specification'') verbose st
      in do {
        hasSpec \<leftarrow> checkCrossReferences_hasSpec Y fs featureFiles featureId;
        if \<not> hasSpec
        then Some (logWarn (''Feature '' @ featureId @ '' (in PRD) has no specification file'') st)
        else Some (logPass (''Feature '' @ featureId @ '' has specification'') verbose st) })"

definition checkCrossReferences_story ::
  "yaml_load \<Rightarrow> fs \<Rightarrow> string list \<Rightarrow> path \<Rightarrow> world
      \<Rightarrow> world option" where
  "checkCrossReferences_story Y fs featureIds storyFile st =
     (let data = loadYaml Y fs storyFile
      in if \<not> truthy data then Some st
         else do {
           storyId \<leftarrow> getString data ''story_id'';
           featureRef \<leftarrow> getString data ''feature_id'';
           if featureRef \<noteq> [] \<and> featureRef \<noteq> ''F-##'' \<and>
              featureRef \<notin> set featureIds
           then Some (logWarn (''Story '' @ storyId @ '' references unknown feature: ''
                               @ featureRef) st)
           else Some st })"

definition checkCrossReferences ::
  "yaml_load \<Rightarrow> fs \<Rightarrow> path \<Rightarrow> bool \<Rightarrow> bool
      \<Rightarrow> world \<Rightarrow> world option" where
  "checkCrossReferences Y fs docsDir checkLinks verbose st =
     (if \<not> checkLinks then Some st
      else (let st = console_log (section_title ''Cross-Reference Validation'') st;
                prdFile = join docsDir ''product-requirements.yaml'';
                prdData = loadYaml Y fs prdFile
            in if \<not> truthy prdData then Some (logWarn ''No PRD file to cross-reference'' st)
               else do {
                 features \<leftarrow> getArray prdData ''features'';
                 featureIds \<leftarrow> checkCrossReferences_featureIds features;
                 if length featureIds = 0
                 then Some (logWarn ''No features in PRD to cross-reference'' st)
                 else do {
                   let featuresDir = join docsDir ''feature-specs'';
                   st \<leftarrow> (if existsSync fs featuresDir
                          then (let featureFiles = findYamlFiles fs featuresDir
                                in forEachM (checkCrossReferences_feature Y fs verbose featureFiles)
                                     featureIds st)
                          else Some st);
                   let storiesDir = join docsDir ''user-stories'';
                   if existsSync fs storiesDir
                   then (let storyFiles = findYamlFiles fs storiesDir
                         in forEachM (checkCrossReferences_story Y fs featureIds) storyFiles st)
                   else Some st } }))"

subsection \<open>Summary and exit status\<close>

definition generateSummary :: "world \<Rightarrow> nat \<times> world" where
  "generateSummary st =
     (let st = console_log ([CHR 0x0A] @ repeat hbar 50) st;
          st = console_log ''Summary'' st;
          st = console_log (repeat hbar 50) st;
          st = console_log ([CHR 0x0A] @ ''Checks performed: '' @ string_of_nat (totalChecks st))
                 st;
          st = (if totalErrors st = 0 then console_log (''Errors: 0 '' @ tick) st
                else console_log (''Errors: '' @ string_of_nat (totalErrors st)) st);
          st = (if totalWarnings st = 0 then console_log (''Warnings: 0 '' @ tick) st
                else console_log (''Warnings: '' @ string_of_nat (totalWarnings st)) st);
          st = console_log [] st
      in if totalErrors st = 0 \<and> totalWarnings st = 0
         then (0, console_log (tick @ '' All checks passed!'') st)
         else if totalErrors st = 0
         then (0, console_log (warning_sign @ '' All checks passed with warnings'') st)
         else (let st = console_log (ballot_x @ '' Some checks failed'') st;
                   st = console_log [] st;
                   st = console_log (bulb @
                       '' Complete project documentation is essential for effective development.'') st;
                   st = console_log ''   Get started with templates: pdocs template <type>'' st;
                   st = console_log
                       ''   Available types: product-requirements, system-design, api-contracts,''
                       st;
                   st = console_log
                       ''                    data-plan, design-spec, user-flow, user-story, feature-spec'' st
               in (1, st)))"

record check_options =
  verbose :: bool
  checkLinks :: bool
  format :: string

text \<open>
  \<open>check\<close> ends the process: the result is the exit status passed to
  \<^verbatim>\<open>process.exit\<close> together with the final state, or \<open>None\<close> for an uncaught TypeError.
\<close>

definition check :: "yaml_load \<Rightarrow> fs \<Rightarrow> path \<Rightarrow> check_options
    \<Rightarrow> world \<Rightarrow> (nat \<times> world) option" where
  "check Y fs docsDir options st =
     (let st = console_log (repeat hbar 50) st;
          st = console_log ''Project Documentation Check'' st;
          st = console_log (repeat hbar 50) st;
          st = console_log (''Documentation directory: '' @ path_text docsDir) st;
          st = console_log [] st
      in if \<not> existsSync fs docsDir
         then Some (1, logError (''Documentation directory not found: '' @ path_text docsDir)
                         None st)
         else do {
           st \<leftarrow> checkPrd Y fs docsDir (verbose options) st;
           st \<leftarrow> checkUserFlows Y fs docsDir (verbose options) st;
           st \<leftarrow> checkUserStories Y fs docsDir (verbose options) st;
           st \<leftarrow> checkFeatureSpecs Y fs docsDir (verbose options) st;
           st \<leftarrow> checkSystemDesign Y fs docsDir (verbose options) st;
           st \<leftarrow> checkApiContracts Y fs docsDir (verbose options) st;
           st \<leftarrow> checkDataPlan Y fs docsDir (verbose options) st;
           st \<leftarrow> checkDesignSpec Y fs docsDir (verbose options) st;
           st \<leftarrow> checkCrossReferences Y fs docsDir (checkLinks options)
                  (verbose options) st;
           Some (generateSummary st) })"

section \<open>Installing CLAUDE.md, and the check command\<close>

text \<open>
  \<open>ensureClaudeDoc\<close> acts on the file system and prints. \<open>moduleDir\<close> is the
  \<^verbatim>\<open>__dirname\<close> of the compiled module. The text of a caught error is abbreviated to its
  code.
\<close>

fun error_text :: "fs_error \<Rightarrow> string" where
  "error_text ENOENT = ''Error: ENOENT''"
| "error_text EISDIR = ''Error: EISDIR''"
| "error_text ENOTDIR = ''Error: ENOTDIR''"

definition ensureClaudeDoc :: "path \<Rightarrow> path \<Rightarrow> fs \<times> world
    \<Rightarrow> fs \<times> world" where
  "ensureClaudeDoc moduleDir docsDir w =
     (case w of (fs, st) \<Rightarrow>
        (let claudePath = join docsDir ''CLAUDE.md''
         in if existsSync fs claudePath then (fs, st)
            else (let templatesDir = join (dirname (dirname moduleDir)) ''templates'';
                      templatePath = join templatesDir ''CLAUDE.template.md''
                  in if \<not> existsSync fs templatePath
                     then (fs, console_log
                         ''Warning: CLAUDE.template.md not found, skipping auto-install'' st)
                     else (case readFileSync fs templatePath of
                             Inl e \<Rightarrow> (fs, console_log
                                 (''Warning: Failed to install CLAUDE.md: '' @ error_text e) st)
                           | Inr templateContent \<Rightarrow>
                               (case writeFileSync fs claudePath templateContent of
                                  Inl e \<Rightarrow> (fs, console_log
                                      (''Warning: Failed to install CLAUDE.md: '' @ error_text e)
                                      st)
                                | Inr fs' \<Rightarrow> (fs', console_log (tick @
                                    '' Installed CLAUDE.md in docs/ directory'') st))))))"

text \<open>
  One run of \<^verbatim>\<open>pdocs check\<close> (the action of the command in cli.ts): a new process,
  whose module-level counters are \<open>result_init\<close>, started in the working directory
  \<open>cwd\<close>. The result is the file system it leaves and what \<open>check\<close> returns.
\<close>

definition pdocs_check ::
  "yaml_load \<Rightarrow> path \<Rightarrow> path \<Rightarrow> check_options \<Rightarrow> fs
      \<Rightarrow> fs \<times> (nat \<times> world) option" where
  "pdocs_check Y moduleDir cwd options fs =
     (case findDocsDir fs cwd of
        None \<Rightarrow>
          (fs, Some (1, console_log
              ''Please run this command from a project directory containing a docs/ folder''
                          (console_log ''Error: Could not find docs/ directory'' result_init)))
      | Some docsDir \<Rightarrow>
          (case ensureClaudeDoc moduleDir docsDir (fs, result_init) of
             (fs', st) \<Rightarrow> (fs', check Y fs' docsDir options st)))"

section \<open>list.ts: the records a listing selects\<close>

text \<open>\<^verbatim>\<open>title.replace(/^Technical Specification - /, '')\<close>.\<close>

definition strip_title_prefix :: "string \<Rightarrow> string" where
  "strip_title_prefix t =
     (let pre = ''Technical Specification - ''
      in if take (length pre) t = pre then drop (length pre) t else t)"

record FeatureData =
  feature_file :: path
  feature_id :: string
  title :: string
  status :: string
  summary :: string
  progress :: int

text \<open>The inner \<open>None\<close> is the \<^verbatim>\<open>null\<close> that \<open>parseFeature\<close> returns for a file without data.\<close>

definition parseFeature :: "yaml_load \<Rightarrow> fs \<Rightarrow> path \<Rightarrow>
    FeatureData option option" where
  "parseFeature Y fs f =
     (let data = loadYaml Y fs f
      in if \<not> truthy data then Some None
         else do {
           fid \<leftarrow> getString data ''feature_id'';
           t \<leftarrow> getString data ''title'';
           let t = (if t \<noteq> [] then t else basename_ext f ''.yaml'');
           let t = strip_title_prefix t;
           s \<leftarrow> getString data ''status'';
           let s = (if s \<noteq> [] then s else ''incomplete'');
           sm \<leftarrow> getString data ''summary'';
           implStatus \<leftarrow> js_get data ''implementation_status'';
           pr \<leftarrow> (if truthy implStatus then getNumber implStatus ''progress''
                  else Some 0);
           Some (Some \<lparr>feature_file = f, feature_id = fid, title = t, status = s,
                        summary = sm, progress = pr\<rparr>) })"

text \<open>
  \<open>listFeatures\<close> up to the point where the selected records are sorted on request and
  printed: the value of its variable \<open>features\<close> after the two filters. With no feature
  file the function prints a notice and shows no record.
\<close>

definition listFeatures_selected ::
  "yaml_load \<Rightarrow> fs \<Rightarrow> path \<Rightarrow> bool \<Rightarrow> string
      \<Rightarrow> FeatureData list option" where
  "listFeatures_selected Y fs docsDir showAll filterStatus =
     (let featuresDir = join docsDir ''feature-specs'';
          files = findYamlFiles fs featuresDir
      in if length files = 0 then Some []
         else do {
           parsed \<leftarrow> mapM (parseFeature Y fs) files;
           let features = [x. Some x \<leftarrow> parsed];
           let features = (if \<not> showAll
                           then filter (\<lambda>x. status x \<noteq> ''complete'') features
                           else features);
           let features = (if filterStatus \<noteq> []
                           then filter (\<lambda>x. status x = filterStatus) features
                           else features);
           Some features })"

record StoryData =
  story_file :: path
  story_id :: string
  story_title :: string
  story_feature_id :: string
  story_status :: string

definition parseStory :: "yaml_load \<Rightarrow> fs \<Rightarrow> path \<Rightarrow> StoryData
    option option" where
  "parseStory Y fs f =
     (let data = loadYaml Y fs f
      in if \<not> truthy data then Some None
         else do {
           sid \<leftarrow> getString data ''story_id'';
           t \<leftarrow> getString data ''title'';
           let t = (if t \<noteq> [] then t else basename_ext f ''.yaml'');
           fid \<leftarrow> getString data ''feature_id'';
           s \<leftarrow> getString data ''status'';
           let s = (if s \<noteq> [] then s else ''incomplete'');
           Some (Some \<lparr>story_file = f, story_id = sid, story_title = t,
                        story_feature_id = fid, story_status = s\<rparr>) })"

definition listStories_selected ::
  "yaml_load \<Rightarrow> fs \<Rightarrow> path \<Rightarrow> bool \<Rightarrow> string
      \<Rightarrow> string \<Rightarrow> StoryData list option" where
  "listStories_selected Y fs docsDir showAll filterStatus filterFeature =
     (let storiesDir = join docsDir ''user-stories'';
          files = findYamlFiles fs storiesDir
      in if length files = 0 then Some []
         else do {
           parsed \<leftarrow> mapM (parseStory Y fs) files;
           let stories = [x. Some x \<leftarrow> parsed];
           let stories = (if \<not> showAll
                          then filter (\<lambda>x. story_status x \<noteq> ''complete'') stories
                          else stories);
           let stories = (if filterStatus \<noteq> []
                          then filter (\<lambda>x. story_status x = filterStatus) stories
                          else stories);
           let stories = (if filterFeature \<noteq> []
                          then filter (\<lambda>x. story_feature_id x = filterFeature) stories
                          else stories);
           Some stories })"

section \<open>Sample projects\<close>

text \<open>
  Small documentation trees used to run the definitions. \<open>sample_load\<close> maps the texts
  of their files to the values js-yaml gives for them, and throws on any other text.
\<close>

text \<open>
  The text \<^verbatim>\<open>{story_id: US-102, summary: '""', user_story: {as_a: '""'}}\<close>, whose
  \<open>summary\<close> and \<open>as_a\<close> are the string of two double quotes.
\<close>

definition quoted_story_text :: string where
  "quoted_story_text =
     ''{story_id: US-102, summary: '' @ apostrophe @ two_quotes @ apostrophe
       @ '', user_story: {as_a: '' @ apostrophe @ two_quotes @ apostrophe @ ''}}''"

definition sample_load :: yaml_load where
  "sample_load s =
     (if s = quoted_story_text
      then Some (JObj [(''story_id'', JStr ''US-102''), (''summary'', JStr two_quotes),
                       (''user_story'', JObj [(''as_a'', JStr two_quotes)])])
      else if s = ''{feature_id: F-04}''
      then Some (JObj [(''feature_id'', JStr ''F-04'')])
      else if s = ''features: []''
      then Some (JObj [(''features'', JArr [])])
      else if s = ''{story_id: US-103, feature_id: F-##}''
      then Some (JObj [(''story_id'', JStr ''US-103''), (''feature_id'', JStr ''F-##'')])
      else if s = ''{story_id: US-104, feature_id: F-01}''
      then Some (JObj [(''story_id'', JStr ''US-104''), (''feature_id'', JStr ''F-01'')])
      else if s = ''features: [{id: F-01}, {id: F-02}]''
      then Some (JObj [(''features'', JArr [JObj [(''id'', JStr ''F-01'')],
                                            JObj [(''id'', JStr ''F-02'')]])])
      else if s = ''{project_name: Foo, summary: bar, goal: baz, features: []}''
      then Some (JObj [(''project_name'', JStr ''Foo''), (''summary'', JStr ''bar''),
                       (''goal'', JStr ''baz''), (''features'', JArr [])])
      else if s = ''{feature_id: F-01, status: complete, summary: done}''
      then Some (JObj [(''feature_id'', JStr ''F-01''), (''status'', JStr ''complete''),
                       (''summary'', JStr ''done'')])
      else if s = ''{feature_id: F-02, status: in-progress, summary: doing}''
      then Some (JObj [(''feature_id'', JStr ''F-02''), (''status'', JStr ''in-progress''),
                       (''summary'', JStr ''doing'')])
      else if s = ''{feature_id: F-03, status: incomplete}''
      then Some (JObj [(''feature_id'', JStr ''F-03''), (''status'', JStr ''incomplete'')])
      else if s = ''{story_id: US-101, feature_id: F-09, user_story: {as_a: user}}''
      then Some (JObj [(''story_id'', JStr ''US-101''), (''feature_id'', JStr ''F-09''),
                       (''user_story'', JObj [(''as_a'', JStr ''user'')])])
      else if s = ''{story_id: US-105, feature_id: F-01, status: complete}''
      then Some (JObj [(''story_id'', JStr ''US-105''), (''feature_id'', JStr ''F-01''),
                       (''status'', JStr ''complete'')])
      else if s = ''features: [{id: F-01}, {id: F-02}, {id: F-02}]''
      then Some (JObj [(''features'', JArr [JObj [(''id'', JStr ''F-01'')],
                                            JObj [(''id'', JStr ''F-02'')],
                                            JObj [(''id'', JStr ''F-02'')]])])
      else None)"

definition sample_fs :: fs where
  "sample_fs =
     [([''p''], Dir), ([''p'', ''docs''], Dir),
      ([''p'', ''a''], Dir), ([''p'', ''a'', ''b''], Dir), ([''p'', ''a'', ''b'', ''c''], Dir),
      ([''p'', ''docs'', ''CLAUDE.md''], File ''my notes''),
      ([''p'', ''docs'', ''product-requirements.yaml''], File
          ''features: [{id: F-01}, {id: F-02}]''),
      ([''p'', ''docs'', ''feature-specs''], Dir),
      ([''p'', ''docs'', ''feature-specs'', ''f1.yaml''],
         File ''{feature_id: F-01, status: complete, summary: done}''),
      ([''p'', ''docs'', ''broken.yaml''], File ''{''),
      ([''opt''], Dir), ([''opt'', ''pdocs''], Dir), ([''opt'', ''pdocs'', ''dist''], Dir),
      ([''opt'', ''pdocs'', ''dist'', ''src''], Dir),
      ([''opt'', ''pdocs'', ''templates''], Dir),
      ([''opt'', ''pdocs'', ''templates'', ''CLAUDE.template.md''],
         File ''# Project Documentation Guide'')]"

text \<open>
  A project with every category present and no \<^verbatim>\<open>CLAUDE.md\<close> yet; the bundled template
  is installed under \<^verbatim>\<open>/opt/pdocs\<close>.
\<close>

definition project_fs :: fs where
  "project_fs =
     [([''c''], Dir), ([''c'', ''docs''], Dir),
      ([''c'', ''docs'', ''product-requirements.yaml''],
         File ''{project_name: Foo, summary: bar, goal: baz, features: []}''),
      ([''c'', ''docs'', ''user-flows''], Dir),
      ([''c'', ''docs'', ''user-stories''], Dir),
      ([''c'', ''docs'', ''feature-specs''], Dir),
      ([''c'', ''docs'', ''feature-specs'', ''f1.yaml''],
         File ''{feature_id: F-01, status: complete, summary: done}''),
      ([''c'', ''docs'', ''system-design.yaml''], File ''{''),
      ([''c'', ''docs'', ''api-contracts.yaml''], File ''{''),
      ([''c'', ''docs'', ''data-plan.yaml''], File ''{''),
      ([''c'', ''docs'', ''design-spec.yaml''], File ''{''),
      ([''opt''], Dir), ([''opt'', ''pdocs''], Dir), ([''opt'', ''pdocs'', ''dist''], Dir),
      ([''opt'', ''pdocs'', ''dist'', ''src''], Dir),
      ([''opt'', ''pdocs'', ''templates''], Dir),
      ([''opt'', ''pdocs'', ''templates'', ''CLAUDE.template.md''],
         File ''# Project Documentation Guide'')]"

text \<open>
  A PRD declaring F-01 and F-02, one specification (of F-01), and stories that refer to
  the placeholder and to F-01; \<open>dangling_fs\<close> adds a story that refers to F-09.
\<close>

definition crossref_fs :: fs where
  "crossref_fs =
     [([''x''], Dir), ([''x'', ''docs''], Dir),
      ([''x'', ''docs'', ''product-requirements.yaml''], File
          ''features: [{id: F-01}, {id: F-02}]''),
      ([''x'', ''docs'', ''feature-specs''], Dir),
      ([''x'', ''docs'', ''feature-specs'', ''f1.yaml''],
         File ''{feature_id: F-01, status: complete, summary: done}''),
      ([''x'', ''docs'', ''user-stories''], Dir),
      ([''x'', ''docs'', ''user-stories'', ''us-103.yaml''],
         File ''{story_id: US-103, feature_id: F-##}''),
      ([''x'', ''docs'', ''user-stories'', ''us-104.yaml''],
         File ''{story_id: US-104, feature_id: F-01}'')]"

definition dangling_fs :: fs where
  "dangling_fs =
     ([''x'', ''docs'', ''user-stories'', ''us-101.yaml''],
        File ''{story_id: US-101, feature_id: F-09, user_story: {as_a: user}}'') # crossref_fs"

text \<open>
  A PRD whose feature list names F-01 once and F-02 twice, one specification (of F-01),
  and no story.
\<close>

definition duplicate_fs :: fs where
  "duplicate_fs =
     [([''u''], Dir), ([''u'', ''docs''], Dir),
      ([''u'', ''docs'', ''product-requirements.yaml''],
         File ''features: [{id: F-01}, {id: F-02}, {id: F-02}]''),
      ([''u'', ''docs'', ''feature-specs''], Dir),
      ([''u'', ''docs'', ''feature-specs'', ''f1.yaml''],
         File ''{feature_id: F-01, status: complete, summary: done}'')]"

text \<open>A PRD that declares no feature, and a story that refers to F-09.\<close>

definition orphan_fs :: fs where
  "orphan_fs =
     [([''o''], Dir), ([''o'', ''docs''], Dir),
      ([''o'', ''docs'', ''product-requirements.yaml''], File ''features: []''),
      ([''o'', ''docs'', ''user-stories''], Dir),
      ([''o'', ''docs'', ''user-stories'', ''us-101.yaml''],
         File ''{story_id: US-101, feature_id: F-09, user_story: {as_a: user}}'')]"

text \<open>A tree with one story whose fields hold the string of two double quotes.\<close>

definition quotes_fs :: fs where
  "quotes_fs =
     [([''q''], Dir), ([''q'', ''docs''], Dir), ([''q'', ''docs'', ''user-stories''], Dir),
      ([''q'', ''docs'', ''user-stories'', ''us-102.yaml''], File quoted_story_text)]"

text \<open>
  A tree with three feature specifications (complete, in progress, incomplete) and two
  stories (one without a status, one complete).
\<close>

definition listing_fs :: fs where
  "listing_fs =
     [([''l''], Dir), ([''l'', ''docs''], Dir), ([''l'', ''docs'', ''feature-specs''], Dir),
      ([''l'', ''docs'', ''feature-specs'', ''f1.yaml''],
         File ''{feature_id: F-01, status: complete, summary: done}''),
      ([''l'', ''docs'', ''feature-specs'', ''f2.yaml''],
         File ''{feature_id: F-02, status: in-progress, summary: doing}''),
      ([''l'', ''docs'', ''feature-specs'', ''f3.yaml''],
         File ''{feature_id: F-03, status: incomplete}''),
      ([''l'', ''docs'', ''user-stories''], Dir),
      ([''l'', ''docs'', ''user-stories'', ''us-103.yaml''],
         File ''{story_id: US-103, feature_id: F-##}''),
      ([''l'', ''docs'', ''user-stories'', ''us-105.yaml''],
         File ''{story_id: US-105, feature_id: F-01, status: complete}'')]"

text \<open>A tree whose only \<^verbatim>\<open>docs\<close> directory is a child of the file system root.\<close>

definition rootdocs_fs :: fs where
  "rootdocs_fs =
     [([''docs''], Dir), ([''a''], Dir), ([''a'', ''b''], Dir), ([''a'', ''b'', ''c''], Dir)]"

section \<open>Notions used to state the properties\<close>

text \<open>
  The directories an upward walk from \<open>cwd\<close> visits before it reaches the root: \<open>cwd\<close>
  itself, its parent, and so on, nearest first.
\<close>

definition walked :: "path \<Rightarrow> path list" where
  "walked cwd = map (\<lambda>k. take k cwd) (rev [1 ..< Suc (length cwd)])"

text \<open>
  The lines that only a verbose run prints are those of \<open>logCheck\<close>, \<open>logPass\<close> and
  \<open>logInfo\<close>. \<open>keep_lines P\<close> forgets the printed lines that do not satisfy \<open>P\<close> and
  keeps the counters.
\<close>

definition verbose_only :: "line \<Rightarrow> bool" where
  "verbose_only l =
     (case l of CHECK m \<Rightarrow> True | PASS m \<Rightarrow> True | INFO m \<Rightarrow> True | _ \<Rightarrow> False)"

definition keep_lines :: "(line \<Rightarrow> bool) \<Rightarrow> world \<Rightarrow> world" where
  "keep_lines P st = st\<lparr>console := filter P (console st)\<rparr>"

definition drops_verbose :: "(line \<Rightarrow> bool) \<Rightarrow> bool" where
  "drops_verbose P = (\<forall>m. \<not> P (CHECK m) \<and> \<not> P (PASS m) \<and> \<not> P (INFO m))"

text \<open>The common form of the logging functions: add to the counters, print lines.\<close>

definition emit :: "nat \<Rightarrow> nat \<Rightarrow> nat \<Rightarrow> line list \<Rightarrow>
    world \<Rightarrow> world" where
  "emit a b c ls st =
     st\<lparr>totalChecks := totalChecks st + a, totalErrors := totalErrors st + b,
        totalWarnings := totalWarnings st + c, console := console st @ ls\<rparr>"

text \<open>What \<open>checkYamlField\<close> finds in a field of a file.\<close>

definition field_blank :: "yaml_load \<Rightarrow> fs \<Rightarrow> path \<Rightarrow> string
    \<Rightarrow> bool" where
  "field_blank Y fs f k =
     (existsSync fs f \<and> truthy (loadYaml Y fs f)
      \<and> (the_string (own_property (loadYaml Y fs f) k) = []
          \<or> the_string (own_property (loadYaml Y fs f) k) = two_quotes))"

definition field_filled :: "yaml_load \<Rightarrow> fs \<Rightarrow> path \<Rightarrow> string
    \<Rightarrow> bool" where
  "field_filled Y fs f k =
     (existsSync fs f \<and> truthy (loadYaml Y fs f)
      \<and> the_string (own_property (loadYaml Y fs f) k) \<noteq> []
      \<and> the_string (own_property (loadYaml Y fs f) k) \<noteq> two_quotes)"

text \<open>
  The feature identifiers the PRD declares, whether a specification file declares a given
  one, and the reference and name a story file declares. A story's reference dangles
  when it is not empty, is not the placeholder \<^verbatim>\<open>F-##\<close> and is not declared by the PRD.
\<close>

definition feature_id_of :: "jsval \<Rightarrow> string" where
  "feature_id_of f = (if js_typeof f = ''object'' \<and> f \<noteq> JNull then the_string
      (own_property f ''id'') else [])"

definition prd_feature_ids :: "yaml_load \<Rightarrow> fs \<Rightarrow> path \<Rightarrow> string
    list" where
  "prd_feature_ids Y fs d =
     filter (\<lambda>i. i \<noteq> [])
       (map feature_id_of
          (the_array (own_property (loadYaml Y fs (join d ''product-requirements.yaml''))
              ''features'')))"

definition spec_declares :: "yaml_load \<Rightarrow> fs \<Rightarrow> string \<Rightarrow> path
    \<Rightarrow> bool" where
  "spec_declares Y fs i f =
     (truthy (loadYaml Y fs f) \<and> the_string (own_property (loadYaml Y fs f) ''feature_id'') =
         i)"

definition story_ref :: "yaml_load \<Rightarrow> fs \<Rightarrow> path \<Rightarrow> string" where
  "story_ref Y fs f = the_string (own_property (loadYaml Y fs f) ''feature_id'')"

definition story_name :: "yaml_load \<Rightarrow> fs \<Rightarrow> path \<Rightarrow> string" where
  "story_name Y fs f = the_string (own_property (loadYaml Y fs f) ''story_id'')"

definition story_dangling :: "yaml_load \<Rightarrow> fs \<Rightarrow> string list \<Rightarrow>
    path \<Rightarrow> bool" where
  "story_dangling Y fs ids f =
     (truthy (loadYaml Y fs f) \<and> story_ref Y fs f \<noteq> [] \<and> story_ref Y fs f
         \<noteq> ''F-##''
      \<and> story_ref Y fs f \<notin> set ids)"

text \<open>The warning lines of an output.\<close>

definition is_warning :: "line \<Rightarrow> bool" where
  "is_warning l = (case l of WARN m \<Rightarrow> True | _ \<Rightarrow> False)"

text \<open>The exit status and the three counters of what \<open>check\<close> returns.\<close>

definition outcome :: "nat \<times> world \<Rightarrow> nat \<times> nat \<times> nat \<times>
    nat" where
  "outcome r = (fst r, totalChecks (snd r), totalErrors (snd r), totalWarnings (snd r))"

text \<open>The warning for a story whose reference dangles, and the lines a feature identifier gets.\<close>

definition story_warning :: "yaml_load \<Rightarrow> fs \<Rightarrow> path \<Rightarrow> line" where
  "story_warning Y fs f =
     WARN (''Story '' @ story_name Y fs f @ '' references unknown feature: '' @ story_ref Y fs f)"

definition feature_lines :: "yaml_load \<Rightarrow> fs \<Rightarrow> bool \<Rightarrow> path list
    \<Rightarrow> string \<Rightarrow> line list" where
  "feature_lines Y fs v files i =
     (if v then [CHECK (''Checking if '' @ i @ '' has specification'')] else [])
     @ (if list_ex (spec_declares Y fs i) files
        then (if v then [PASS (''Feature '' @ i @ '' has specification'')] else [])
        else [WARN (''Feature '' @ i @ '' (in PRD) has no specification file'')])"

text \<open>
  What a listing shows for a file of its category. A file that does not load has no
  record. For one that loads, \<open>field_text\<close> is the text of a field (empty unless the
  field holds a string), the status is that of the field \<^verbatim>\<open>status\<close>, or
  \<^verbatim>\<open>incomplete\<close> when that is empty, and the title is that of the field \<^verbatim>\<open>title\<close>, or
  the name of the file when that is empty.
\<close>

definition loads :: "yaml_load \<Rightarrow> fs \<Rightarrow> path \<Rightarrow> bool" where
  "loads Y fs f = truthy (loadYaml Y fs f)"

definition field_text :: "yaml_load \<Rightarrow> fs \<Rightarrow> path \<Rightarrow> string \<Rightarrow> string" where
  "field_text Y fs f k = the_string (own_property (loadYaml Y fs f) k)"

definition record_status :: "yaml_load \<Rightarrow> fs \<Rightarrow> path \<Rightarrow> string" where
  "record_status Y fs f =
     (if field_text Y fs f ''status'' = [] then ''incomplete'' else field_text Y fs f ''status'')"

definition record_title :: "yaml_load \<Rightarrow> fs \<Rightarrow> path \<Rightarrow> string" where
  "record_title Y fs f =
     (if field_text Y fs f ''title'' = [] then basename_ext f ''.yaml''
      else field_text Y fs f ''title'')"

text \<open>A number, or the decimal number a string starts with, and 0 for anything else.\<close>

definition number_field :: "jsval \<Rightarrow> string \<Rightarrow> int" where
  "number_field v k =
     (case own_property v k of
        JNum n \<Rightarrow> n
      | JStr s \<Rightarrow> (case parseInt10 s of Some n \<Rightarrow> n | None \<Rightarrow> 0)
      | _ \<Rightarrow> 0)"

definition feature_progress :: "yaml_load \<Rightarrow> fs \<Rightarrow> path \<Rightarrow> int" where
  "feature_progress Y fs f =
     (if truthy (own_property (loadYaml Y fs f) ''implementation_status'')
      then number_field (own_property (loadYaml Y fs f) ''implementation_status'') ''progress''
      else 0)"

definition feature_record :: "yaml_load \<Rightarrow> fs \<Rightarrow> path \<Rightarrow> FeatureData" where
  "feature_record Y fs f =
     \<lparr>feature_file = f, feature_id = field_text Y fs f ''feature_id'',
      title = strip_title_prefix (record_title Y fs f), status = record_status Y fs f,
      summary = field_text Y fs f ''summary'', progress = feature_progress Y fs f\<rparr>"

definition story_record :: "yaml_load \<Rightarrow> fs \<Rightarrow> path \<Rightarrow> StoryData" where
  "story_record Y fs f =
     \<lparr>story_file = f, story_id = field_text Y fs f ''story_id'',
      story_title = record_title Y fs f, story_feature_id = field_text Y fs f ''feature_id'',
      story_status = record_status Y fs f\<rparr>"

section \<open>Verification\<close>

subsection \<open>The sample parser on the sample texts\<close>

lemmas sample_load_unfold = sample_load_def quoted_story_text_def apostrophe_def two_quotes_def

lemma sample_load_broken: "sample_load ''{'' = None"
  by (simp add: sample_load_unfold)

lemma sample_load_quoted:
  "sample_load quoted_story_text
     = Some (JObj [(''story_id'', JStr ''US-102''), (''summary'', JStr two_quotes),
                   (''user_story'', JObj [(''as_a'', JStr two_quotes)])])"
  by (simp add: sample_load_def)

subsection \<open>The accessors on a value that passed the guard\<close>

lemma truthy_not_nullish: "truthy d \<Longrightarrow> d \<noteq> JNull \<and> d \<noteq> JUndefined"
  by (cases d) simp_all

lemma js_get_truthy: "truthy d \<Longrightarrow> js_get d k = Some (own_property d k)"
  by (cases d) (simp_all add: js_get_def)

lemma getString_truthy: "truthy d \<Longrightarrow> getString d k = Some (the_string (own_property
    d k))"
  by (cases "own_property d k") (simp_all add: getString_def js_get_truthy)

lemma getArray_truthy: "truthy d \<Longrightarrow> getArray d k = Some (the_array (own_property d
    k))"
  by (cases "own_property d k") (simp_all add: getArray_def js_get_truthy)

lemma getNestedString_truthy:
  "truthy d \<Longrightarrow> getNestedString d p c = Some (the_string (own_property (own_property
      d p) c))"
  by (cases "own_property d p"; cases "own_property (own_property d p) c")
     (auto simp add: getNestedString_def js_get_truthy js_get_def)

lemma getNumber_number_field: "truthy d \<Longrightarrow> getNumber d k = Some (number_field d k)"
  by (cases "own_property d k")
     (simp_all add: getNumber_def js_get_truthy number_field_def split: option.splits)

subsection \<open>The loader's sentinel and the accessors\<close>

text \<open>
  Claim C2, as amended. For every file that cannot be read or whose contents fail to
  parse, \<open>loadYaml\<close> returns \<^verbatim>\<open>null\<close>. Each of the four accessors applied to that
  sentinel throws a TypeError (the result \<open>None\<close>); their parameter type excludes
  \<^verbatim>\<open>null\<close>, and every caller tests the loaded value first. The zero values (the empty
  string, 0, the empty sequence, the empty string) are what the accessors return on an
  empty record.
\<close>

theorem accessors_on_unparsable:
  assumes "readFileSync fs p = Inl e \<or> (readFileSync fs p = Inr c \<and> Y c = None)"
  shows "loadYaml Y fs p = JNull
       \<and> getString (loadYaml Y fs p) key = None
       \<and> getNumber (loadYaml Y fs p) key = None
       \<and> getArray (loadYaml Y fs p) key = None
       \<and> getNestedString (loadYaml Y fs p) key child = None
       \<and> getString (JObj []) key = Some []
       \<and> getNumber (JObj []) key = Some 0
       \<and> getArray (JObj []) key = Some []
       \<and> getNestedString (JObj []) key child = Some []"
proof -
  have "loadYaml Y fs p = JNull"
    using assms by (auto simp: loadYaml_def)
  then show ?thesis
    by (simp add: getString_def getNumber_def getArray_def getNestedString_def js_get_def)
qed

text \<open>The theorem at the file \<^verbatim>\<open>/p/docs/broken.yaml\<close> of the sample tree.\<close>

theorem accessors_on_unparsable_witness:
  "readFileSync sample_fs [''p'', ''docs'', ''broken.yaml''] = Inr ''{''
   \<and> sample_load ''{'' = None
   \<and> loadYaml sample_load sample_fs [''p'', ''docs'', ''broken.yaml''] = JNull
   \<and> getString (loadYaml sample_load sample_fs [''p'', ''docs'', ''broken.yaml'']) ''status''
       = None
   \<and> getNumber (loadYaml sample_load sample_fs [''p'', ''docs'', ''broken.yaml'']) ''status''
       = None
   \<and> getArray (loadYaml sample_load sample_fs [''p'', ''docs'', ''broken.yaml'']) ''status''
       = None
   \<and> getNestedString (loadYaml sample_load sample_fs [''p'', ''docs'', ''broken.yaml''])
       ''status'' ''as_a'' = None
   \<and> getString (JObj []) ''status'' = Some []"
proof -
  have r: "readFileSync sample_fs [''p'', ''docs'', ''broken.yaml''] = Inr ''{''"
    by (simp add: readFileSync_def stat_def sample_fs_def)
  have y: "sample_load ''{'' = None"
    by (rule sample_load_broken)
  from r y have h:
    "readFileSync sample_fs [''p'', ''docs'', ''broken.yaml''] = Inl ENOENT
     \<or> (readFileSync sample_fs [''p'', ''docs'', ''broken.yaml''] = Inr ''{'' \<and>
         sample_load ''{'' = None)"
    by simp
  note th = accessors_on_unparsable [where Y = sample_load and fs = sample_fs
      and p = "[''p'', ''docs'', ''broken.yaml'']" and c = "''{''" and e = ENOENT
      and key = "''status''" and child = "''as_a''", OF h]
  from r y th show ?thesis by blast
qed

text \<open>
  The claim as written fails on that file: the accessors do not return their zero values
  on the sentinel.
\<close>

theorem accessors_on_null_counterexample:
  "\<not> (getString (loadYaml sample_load sample_fs [''p'', ''docs'', ''broken.yaml''])
      ''status'' = Some []
      \<and> getNumber (loadYaml sample_load sample_fs [''p'', ''docs'', ''broken.yaml''])
          ''progress'' = Some 0
      \<and> getArray (loadYaml sample_load sample_fs [''p'', ''docs'', ''broken.yaml''])
          ''features'' = Some []
      \<and> getNestedString (loadYaml sample_load sample_fs [''p'', ''docs'', ''broken.yaml''])
           ''user_story'' ''as_a'' = Some [])"
  by (simp add: loadYaml_def readFileSync_def stat_def sample_fs_def sample_load_broken
      getString_def js_get_def)

subsection \<open>An existing CLAUDE.md is left alone\<close>

text \<open>
  Claim C9. When \<^verbatim>\<open>CLAUDE.md\<close> already exists in the documentation root,
  \<open>ensureClaudeDoc\<close> returns the file system it was given, so that no file is written or
  changed, and prints nothing.
\<close>

theorem ensureClaudeDoc_existing:
  assumes "existsSync fs (join docsDir ''CLAUDE.md'')"
  shows "ensureClaudeDoc moduleDir docsDir (fs, st) = (fs, st)"
  using assms by (simp add: ensureClaudeDoc_def)

text \<open>
  In the sample tree the template exists and differs from the installed file, which keeps
  its content.
\<close>

theorem ensureClaudeDoc_existing_witness:
  "existsSync sample_fs (join [''p'', ''docs''] ''CLAUDE.md'')
   \<and> existsSync sample_fs [''opt'', ''pdocs'', ''templates'', ''CLAUDE.template.md'']
   \<and> ensureClaudeDoc [''opt'', ''pdocs'', ''dist'', ''src''] [''p'', ''docs''] (sample_fs,
       result_init)
       = (sample_fs, result_init)
   \<and> readFileSync sample_fs [''p'', ''docs'', ''CLAUDE.md''] = Inr ''my notes''"
proof -
  have e: "existsSync sample_fs (join [''p'', ''docs''] ''CLAUDE.md'')"
    by (simp add: existsSync_def stat_def join_def sample_fs_def)
  have t: "existsSync sample_fs [''opt'', ''pdocs'', ''templates'', ''CLAUDE.template.md'']"
    by (simp add: existsSync_def stat_def sample_fs_def)
  have r: "readFileSync sample_fs [''p'', ''docs'', ''CLAUDE.md''] = Inr ''my notes''"
    by (simp add: readFileSync_def stat_def sample_fs_def)
  from e t r ensureClaudeDoc_existing [OF e] show ?thesis by simp
qed

subsection \<open>Discovery of the documentation root\<close>

lemma walked_Nil: "walked [] = []"
  by (simp add: walked_def)

lemma walked_snoc: "walked (xs @ [x]) = (xs @ [x]) # walked xs"
  by (auto simp: walked_def)

lemma set_walked: "set (walked cwd) = {d. d \<noteq> root \<and> (\<exists>r. cwd = d @ r)}"
proof (induction cwd rule: rev_induct)
  case Nil
  then show ?case by (auto simp: walked_Nil root_def)
next
  case (snoc x xs)
  have "(\<exists>r. xs @ [x] = d @ r) \<longleftrightarrow> d = xs @ [x] \<or> (\<exists>r. xs =
      d @ r)" for d
  proof
    assume "\<exists>r. xs @ [x] = d @ r"
    then obtain r where r: "xs @ [x] = d @ r" ..
    show "d = xs @ [x] \<or> (\<exists>r. xs = d @ r)"
    proof (cases r rule: rev_cases)
      case Nil
      with r show ?thesis by simp
    next
      case (snoc r' y)
      with r have "xs = d @ r'" by simp
      then show ?thesis by blast
    qed
  next
    assume "d = xs @ [x] \<or> (\<exists>r. xs = d @ r)"
    then show "\<exists>r. xs @ [x] = d @ r" by auto
  qed
  with snoc show ?case by (auto simp: walked_snoc root_def)
qed

lemma findDocsDir_from_find:
  "findDocsDir_from fs cwd =
     map_option (\<lambda>d. join d ''docs'') (find (\<lambda>d. isDirectory fs (join d ''docs''))
         (walked cwd))"
proof (induction cwd rule: rev_induct)
  case Nil
  show ?case by (subst findDocsDir_from.simps) (simp add: root_def walked_Nil)
next
  case (snoc x xs)
  show ?case
    by (subst findDocsDir_from.simps)
       (auto simp: root_def walked_snoc dirname_def snoc existsSync_def isDirectory_def Let_def)
qed

text \<open>
  Claim C6, as amended. Discovery walks upward from the working directory through the
  directories other than the file system root, nearest first, and returns the \<^verbatim>\<open>docs\<close>
  child of the first of them in which that child is a directory; it returns "not found"
  (\<open>None\<close>) when it reaches the root, whose own \<^verbatim>\<open>docs\<close> child is not inspected. The
  result depends only on the \<^verbatim>\<open>docs\<close> children of the walked directories, never on a
  descendant or a sibling. Started three levels below a folder other than the root that
  contains a \<^verbatim>\<open>docs\<close> directory, with no \<^verbatim>\<open>docs\<close> directory in the three levels between,
  it returns that folder's \<^verbatim>\<open>docs\<close> path; started where no walked directory has one, it
  returns "not found".
\<close>

theorem findDocsDir_walks_up:
  "findDocsDir fs cwd =
     map_option (\<lambda>d. join d ''docs'') (find (\<lambda>d. isDirectory fs (join d ''docs''))
         (walked cwd))
   \<and> set (walked cwd) = {d. d \<noteq> root \<and> (\<exists>r. cwd = d @ r)}
   \<and> ((\<forall>d \<in> set (walked cwd). stat fs2 (join d ''docs'') = stat fs (join d
       ''docs''))
        \<longrightarrow> findDocsDir fs2 cwd = findDocsDir fs cwd)
   \<and> (p \<noteq> root \<and> isDirectory fs (join p ''docs'')
        \<and> \<not> isDirectory fs (join (p @ [a]) ''docs'')
        \<and> \<not> isDirectory fs (join (p @ [a, b]) ''docs'')
        \<and> \<not> isDirectory fs (join (p @ [a, b, c]) ''docs'')
        \<longrightarrow> findDocsDir fs (p @ [a, b, c]) = Some (join p ''docs''))
   \<and> ((\<forall>d \<in> set (walked cwd). \<not> isDirectory fs (join d ''docs''))
       \<longrightarrow> findDocsDir fs cwd = None)"
proof (intro conjI impI)
  show "findDocsDir fs cwd =
     map_option (\<lambda>d. join d ''docs'') (find (\<lambda>d. isDirectory fs (join d ''docs''))
         (walked cwd))"
    by (simp add: findDocsDir_def findDocsDir_from_find)
  show "set (walked cwd) = {d. d \<noteq> root \<and> (\<exists>r. cwd = d @ r)}"
    by (rule set_walked)
next
  assume "\<forall>d \<in> set (walked cwd). stat fs2 (join d ''docs'') = stat fs (join d ''docs'')"
  then have "find (\<lambda>d. isDirectory fs2 (join d ''docs'')) (walked cwd)
           = find (\<lambda>d. isDirectory fs (join d ''docs'')) (walked cwd)"
    by (intro find_cong) (simp_all add: isDirectory_def)
  then show "findDocsDir fs2 cwd = findDocsDir fs cwd"
    by (simp add: findDocsDir_def findDocsDir_from_find)
next
  assume h: "p \<noteq> root \<and> isDirectory fs (join p ''docs'')
        \<and> \<not> isDirectory fs (join (p @ [a]) ''docs'')
        \<and> \<not> isDirectory fs (join (p @ [a, b]) ''docs'')
        \<and> \<not> isDirectory fs (join (p @ [a, b, c]) ''docs'')"
  then obtain q y where p: "p = q @ [y]"
    by (cases p rule: rev_cases) (auto simp: root_def)
  have w: "walked (p @ [a, b, c]) = (p @ [a, b, c]) # (p @ [a, b]) # (p @ [a]) # p # walked q"
    using walked_snoc [of "p @ [a, b]" c] walked_snoc [of "p @ [a]" b] walked_snoc [of p a]
      walked_snoc [of q y] p by simp
  show "findDocsDir fs (p @ [a, b, c]) = Some (join p ''docs'')"
    using h by (simp add: findDocsDir_def findDocsDir_from_find w)
next
  assume "\<forall>d \<in> set (walked cwd). \<not> isDirectory fs (join d ''docs'')"
  then have "find (\<lambda>d. isDirectory fs (join d ''docs'')) (walked cwd) = None"
    by (simp add: find_None_iff)
  then show "findDocsDir fs cwd = None"
    by (simp add: findDocsDir_def findDocsDir_from_find)
qed

text \<open>
  In the sample tree: from \<^verbatim>\<open>/p/a/b/c\<close> the result is \<^verbatim>\<open>/p/docs\<close>, from
  \<^verbatim>\<open>/opt/pdocs\<close> nothing is found.
\<close>

theorem findDocsDir_walks_up_witness:
  "findDocsDir sample_fs ([''p''] @ [''a'', ''b'', ''c'']) = Some (join [''p''] ''docs'')
   \<and> findDocsDir sample_fs [''opt'', ''pdocs''] = None"
proof -
  have h1: "[''p''] \<noteq> root \<and> isDirectory sample_fs (join [''p''] ''docs'')
        \<and> \<not> isDirectory sample_fs (join ([''p''] @ [''a'']) ''docs'')
        \<and> \<not> isDirectory sample_fs (join ([''p''] @ [''a'', ''b'']) ''docs'')
        \<and> \<not> isDirectory sample_fs (join ([''p''] @ [''a'', ''b'', ''c'']) ''docs'')"
    by (simp add: root_def isDirectory_def stat_def join_def sample_fs_def)
  have w: "walked [''opt'', ''pdocs''] = [[''opt'', ''pdocs''], [''opt'']]"
    by (simp add: walked_def upt_rec)
  have h2: "\<forall>d \<in> set (walked [''opt'', ''pdocs'']). \<not> isDirectory sample_fs (join
      d ''docs'')"
    by (simp add: w isDirectory_def stat_def join_def sample_fs_def)
  from h1 h2
    findDocsDir_walks_up [of sample_fs "[''p''] @ [''a'', ''b'', ''c'']" sample_fs "[''p'']"
        "''a''" "''b''" "''c''"]
    findDocsDir_walks_up [of sample_fs "[''opt'', ''pdocs'']" sample_fs "[''p'']" "''a''" "''b''"
        "''c''"]
  show ?thesis by blast
qed

text \<open>
  The claim as written fails when the folder that contains \<^verbatim>\<open>docs\<close> is the file
  system root: from \<^verbatim>\<open>/a/b/c\<close>, three levels below it, \<^verbatim>\<open>/docs\<close> is not found.
\<close>

theorem findDocsDir_root_counterexample:
  "isDirectory rootdocs_fs (join root ''docs'')
   \<and> findDocsDir rootdocs_fs (root @ [''a'', ''b'', ''c'']) \<noteq> Some (join root ''docs'')
   \<and> findDocsDir rootdocs_fs (root @ [''a'', ''b'', ''c'']) = None"
proof -
  have w: "walked [''a'', ''b'', ''c''] = [[''a'', ''b'', ''c''], [''a'', ''b''], [''a'']]"
    by (simp add: walked_def upt_rec)
  show ?thesis
    by (simp add: findDocsDir_def findDocsDir_from_find w root_def isDirectory_def stat_def join_def
        rootdocs_fs_def)
qed

subsection \<open>The string of two double quotes counts as empty\<close>

text \<open>
  Claim C10. The field-presence check \<open>checkYamlField\<close> treats the string of two double
  quote characters as empty: for a file that exists and loads, a checked field holding
  exactly that string gives the same "is empty" warning, and the same result \<open>False\<close>, as
  a missing or empty field. The \<open>as_a\<close> test of the user-story check treats that string
  like the empty one too, and warns that the story's definition is incomplete.
\<close>

theorem two_quotes_is_empty:
  "length two_quotes = 2 \<and> set two_quotes = {CHR 0x22}
   \<and> (existsSync fs f \<and> truthy (loadYaml Y fs f)
        \<and> (getString (loadYaml Y fs f) field = Some [] \<or> getString (loadYaml Y fs f)
            field = Some two_quotes)
      \<longrightarrow> checkYamlField Y fs f field label st
            = Some (False, logWarn (label @ '': '' @ apostrophe @ field @ apostrophe
                                    @ '' is empty in '' @ basename f) st))
   \<and> (truthy (loadYaml Y fs sf)
        \<and> (getNestedString (loadYaml Y fs sf) ''user_story'' ''as_a'' = Some []
            \<or> getNestedString (loadYaml Y fs sf) ''user_story'' ''as_a'' = Some two_quotes)
      \<longrightarrow> (\<exists>sid c' i'. getString (loadYaml Y fs sf) ''story_id'' = Some sid
            \<and> checkUserStories_each Y fs sf (st, c, i)
                = Some (logWarn (''Story '' @ sid @ '' has incomplete user story definition'') st,
                    c', i')))"
proof (intro conjI impI)
  show "length two_quotes = 2" by (simp add: two_quotes_def)
  show "set two_quotes = {CHR 0x22}" by (simp add: two_quotes_def)
next
  assume "existsSync fs f \<and> truthy (loadYaml Y fs f)
        \<and> (getString (loadYaml Y fs f) field = Some [] \<or> getString (loadYaml Y fs f)
            field = Some two_quotes)"
  then show "checkYamlField Y fs f field label st
            = Some (False, logWarn (label @ '': '' @ apostrophe @ field @ apostrophe
                                    @ '' is empty in '' @ basename f) st)"
    by (auto simp: checkYamlField_def)
next
  assume h: "truthy (loadYaml Y fs sf)
        \<and> (getNestedString (loadYaml Y fs sf) ''user_story'' ''as_a'' = Some []
            \<or> getNestedString (loadYaml Y fs sf) ''user_story'' ''as_a'' = Some two_quotes)"
  then have t: "truthy (loadYaml Y fs sf)" by simp
  from h show "\<exists>sid c' i'. getString (loadYaml Y fs sf) ''story_id'' = Some sid
            \<and> checkUserStories_each Y fs sf (st, c, i)
                = Some (logWarn (''Story '' @ sid @ '' has incomplete user story definition'') st,
                    c', i')"
    by (auto simp: checkUserStories_each_def getString_truthy [OF t] Let_def)
qed

text \<open>The story of the tree \<open>quotes_fs\<close>, whose \<open>summary\<close> and \<open>as_a\<close> are that string.\<close>

theorem two_quotes_is_empty_witness:
  "checkYamlField sample_load quotes_fs [''q'', ''docs'', ''user-stories'', ''us-102.yaml'']
      ''summary''
      ''Story'' result_init
     = Some (False, logWarn (''Story'' @ '': '' @ apostrophe @ ''summary'' @ apostrophe
                  @ '' is empty in '' @ ''us-102.yaml'') result_init)
   \<and> (\<exists>c' i'. checkUserStories_each sample_load quotes_fs
         [''q'', ''docs'', ''user-stories'', ''us-102.yaml''] (result_init, 0, 0)
       = Some (logWarn (''Story US-102 has incomplete user story definition'') result_init, c',
           i'))"
proof -
  let ?f = "[''q'', ''docs'', ''user-stories'', ''us-102.yaml'']"
  have l: "loadYaml sample_load quotes_fs ?f
     = JObj [(''story_id'', JStr ''US-102''), (''summary'', JStr two_quotes),
             (''user_story'', JObj [(''as_a'', JStr two_quotes)])]"
    by (simp add: loadYaml_def readFileSync_def stat_def quotes_fs_def sample_load_quoted)
  have e: "existsSync quotes_fs ?f"
    by (simp add: existsSync_def stat_def quotes_fs_def)
  have t: "truthy (loadYaml sample_load quotes_fs ?f)"
    by (simp add: l)
  have g: "getString (loadYaml sample_load quotes_fs ?f) ''summary'' = Some two_quotes"
    by (simp add: l getString_def js_get_def)
  have n: "getNestedString (loadYaml sample_load quotes_fs ?f) ''user_story'' ''as_a'' = Some
      two_quotes"
    by (simp add: l getNestedString_def js_get_def)
  have s: "getString (loadYaml sample_load quotes_fs ?f) ''story_id'' = Some ''US-102''"
    by (simp add: l getString_def js_get_def)
  have b: "basename ?f = ''us-102.yaml''"
    by (simp add: basename_def)
  note th = two_quotes_is_empty [where Y = sample_load and fs = quotes_fs and f = ?f
      and field = "''summary''" and label = "''Story''" and st = result_init and sf = ?f
      and c = 0 and i = 0]
  from e t g have p1: "existsSync quotes_fs ?f \<and> truthy (loadYaml sample_load quotes_fs ?f)
        \<and> (getString (loadYaml sample_load quotes_fs ?f) ''summary'' = Some []
            \<or> getString (loadYaml sample_load quotes_fs ?f) ''summary'' = Some two_quotes)"
    by simp
  have 1: "checkYamlField sample_load quotes_fs ?f ''summary'' ''Story'' result_init
     = Some (False, logWarn (''Story'' @ '': '' @ apostrophe @ ''summary'' @ apostrophe
                  @ '' is empty in '' @ basename ?f) result_init)"
    by (rule th [THEN conjunct2, THEN conjunct2, THEN conjunct1, THEN mp, OF p1])
  from t n have p2: "truthy (loadYaml sample_load quotes_fs ?f)
        \<and> (getNestedString (loadYaml sample_load quotes_fs ?f) ''user_story'' ''as_a'' = Some
            []
            \<or> getNestedString (loadYaml sample_load quotes_fs ?f) ''user_story'' ''as_a'' =
                Some two_quotes)"
    by simp
  from th [THEN conjunct2, THEN conjunct2, THEN conjunct2, THEN mp, OF p2]
  obtain sid c' i' where
    2: "getString (loadYaml sample_load quotes_fs ?f) ''story_id'' = Some sid"
      "checkUserStories_each sample_load quotes_fs ?f (result_init, 0, 0)
         = Some (logWarn (''Story '' @ sid @ '' has incomplete user story definition'')
             result_init, c', i')"
    by (elim exE conjE)
  from 2(1) s have sid: "sid = ''US-102''" by simp
  have A: "checkYamlField sample_load quotes_fs ?f ''summary'' ''Story'' result_init
     = Some (False, logWarn (''Story'' @ '': '' @ apostrophe @ ''summary'' @ apostrophe
                  @ '' is empty in '' @ ''us-102.yaml'') result_init)"
    using 1 by (simp only: b)
  have B: "\<exists>c' i'. checkUserStories_each sample_load quotes_fs ?f (result_init, 0, 0)
       = Some (logWarn (''Story US-102 has incomplete user story definition'') result_init, c', i')"
    using 2(2) by (intro exI [of _ c'] exI [of _ i']) (simp add: sid)
  from A B show ?thesis by (rule conjI)
qed

subsection \<open>Listings hide complete records by default\<close>

lemma mapM_map: "(\<And>x. f x = Some (g x)) \<Longrightarrow> mapM f xs = Some (map g xs)"
  by (induction xs) simp_all

lemma parseFeature_record:
  "parseFeature Y fs f = Some (if loads Y fs f then Some (feature_record Y fs f) else None)"
proof (cases "truthy (loadYaml Y fs f)")
  case False
  then show ?thesis by (simp add: parseFeature_def loads_def)
next
  case True
  then show ?thesis
    by (simp add: parseFeature_def loads_def Let_def getString_truthy js_get_truthy
        getNumber_number_field feature_record_def field_text_def record_status_def
        record_title_def feature_progress_def)
qed

lemma parseStory_record:
  "parseStory Y fs f = Some (if loads Y fs f then Some (story_record Y fs f) else None)"
proof (cases "truthy (loadYaml Y fs f)")
  case False
  then show ?thesis by (simp add: parseStory_def loads_def)
next
  case True
  then show ?thesis
    by (simp add: parseStory_def loads_def Let_def getString_truthy
        story_record_def field_text_def record_status_def record_title_def)
qed

lemma present_records_comp:
  "concat (map (case_option [] (\<lambda>x. [x]) \<circ> (\<lambda>f. if P f then Some (g f) else None)) fs)
     = map g (filter P fs)"
  by (induction fs) simp_all

lemma filter_records:
  "filter (\<lambda>x. s x \<noteq> c) (map g (filter P fs))
     = map g (filter (\<lambda>f. P f \<and> s (g f) \<noteq> c) fs)"
  by (induction fs) simp_all

lemma listFeatures_records:
  "listFeatures_selected Y fs d True []
     = Some (map (feature_record Y fs) (filter (loads Y fs)
         (findYamlFiles fs (join d ''feature-specs''))))
   \<and> listFeatures_selected Y fs d False []
     = Some (map (feature_record Y fs)
         (filter (\<lambda>f. loads Y fs f \<and> record_status Y fs f \<noteq> ''complete'')
            (findYamlFiles fs (join d ''feature-specs''))))"
proof -
  let ?files = "findYamlFiles fs (join d ''feature-specs'')"
  have m: "mapM (parseFeature Y fs) ?files
      = Some (map (\<lambda>f. if loads Y fs f then Some (feature_record Y fs f) else None) ?files)"
    by (rule mapM_map) (rule parseFeature_record)
  have s: "status (feature_record Y fs f) = record_status Y fs f" for f
    by (simp add: feature_record_def)
  show ?thesis
  proof (cases "?files = []")
    case True
    then show ?thesis by (simp add: listFeatures_selected_def)
  next
    case False
    then show ?thesis
      by (simp add: listFeatures_selected_def Let_def m present_records_comp
          filter_records [of status] s)
  qed
qed

lemma listStories_records:
  "listStories_selected Y fs d True [] []
     = Some (map (story_record Y fs) (filter (loads Y fs)
         (findYamlFiles fs (join d ''user-stories''))))
   \<and> listStories_selected Y fs d False [] []
     = Some (map (story_record Y fs)
         (filter (\<lambda>f. loads Y fs f \<and> record_status Y fs f \<noteq> ''complete'')
            (findYamlFiles fs (join d ''user-stories''))))"
proof -
  let ?files = "findYamlFiles fs (join d ''user-stories'')"
  have m: "mapM (parseStory Y fs) ?files
      = Some (map (\<lambda>f. if loads Y fs f then Some (story_record Y fs f) else None) ?files)"
    by (rule mapM_map) (rule parseStory_record)
  have s: "story_status (story_record Y fs f) = record_status Y fs f" for f
    by (simp add: story_record_def)
  show ?thesis
  proof (cases "?files = []")
    case True
    then show ?thesis by (simp add: listStories_selected_def)
  next
    case False
    then show ?thesis
      by (simp add: listStories_selected_def Let_def m present_records_comp
          filter_records [of story_status] s)
  qed
qed


text \<open>
  Claim C5. In the two categories whose records carry a status, features and stories, a
  listing asked for with the include-all flag and no other filter shows all records: one
  for every file of the category that loads, in the order of the files, with the status
  the file declares (\<^verbatim>\<open>incomplete\<close> when it declares none). Without the flag it shows
  exactly those of these records whose status is not \<^verbatim>\<open>complete\<close>. No file makes
  the listing throw.
\<close>

theorem default_listing_hides_complete:
  "listFeatures_selected Y fs d True []
     = Some (map (feature_record Y fs)
         (filter (loads Y fs) (findYamlFiles fs (join d ''feature-specs''))))
   \<and> listFeatures_selected Y fs d False []
     = Some (filter (\<lambda>x. status x \<noteq> ''complete'')
         (map (feature_record Y fs)
            (filter (loads Y fs) (findYamlFiles fs (join d ''feature-specs'')))))
   \<and> listStories_selected Y fs d True [] []
     = Some (map (story_record Y fs)
         (filter (loads Y fs) (findYamlFiles fs (join d ''user-stories''))))
   \<and> listStories_selected Y fs d False [] []
     = Some (filter (\<lambda>x. story_status x \<noteq> ''complete'')
         (map (story_record Y fs)
            (filter (loads Y fs) (findYamlFiles fs (join d ''user-stories'')))))
   \<and> status (feature_record Y fs f) = record_status Y fs f
   \<and> story_status (story_record Y fs f) = record_status Y fs f"
proof -
  have "status (feature_record Y fs g) = record_status Y fs g" for g
    by (simp add: feature_record_def)
  moreover have "story_status (story_record Y fs g) = record_status Y fs g" for g
    by (simp add: story_record_def)
  ultimately show ?thesis
    using listFeatures_records [of Y fs d] listStories_records [of Y fs d]
    by (simp add: filter_records [of status] filter_records [of story_status])
qed

text \<open>The records of the tree \<open>listing_fs\<close>.\<close>

lemma listing_features:
  "map (\<lambda>f. (feature_id (feature_record sample_load listing_fs f),
              record_status sample_load listing_fs f))
     (filter (loads sample_load listing_fs)
        (findYamlFiles listing_fs (join [''l'', ''docs''] ''feature-specs'')))
   = [(''F-01'', ''complete''), (''F-02'', ''in-progress''), (''F-03'', ''incomplete'')]"
  by code_simp

lemma listing_stories:
  "map (\<lambda>f. (story_id (story_record sample_load listing_fs f),
              record_status sample_load listing_fs f))
     (filter (loads sample_load listing_fs)
        (findYamlFiles listing_fs (join [''l'', ''docs''] ''user-stories'')))
   = [(''US-103'', ''incomplete''), (''US-105'', ''complete'')]"
  by code_simp

text \<open>
  Of the three feature records (complete, in progress, incomplete) the default listing
  shows the two that are not complete, and the listing with the flag all three; of the
  two story records the default listing shows the one that is not complete.
\<close>

theorem default_listing_hides_complete_witness:
  "map_option (map (\<lambda>x. (feature_id x, status x)))
       (listFeatures_selected sample_load listing_fs [''l'', ''docs''] False [])
     = Some [(''F-02'', ''in-progress''), (''F-03'', ''incomplete'')]
   \<and> map_option (map (\<lambda>x. (feature_id x, status x)))
       (listFeatures_selected sample_load listing_fs [''l'', ''docs''] True [])
     = Some [(''F-01'', ''complete''), (''F-02'', ''in-progress''), (''F-03'', ''incomplete'')]
   \<and> map_option (map (\<lambda>x. (story_id x, story_status x)))
       (listStories_selected sample_load listing_fs [''l'', ''docs''] False [] [])
     = Some [(''US-103'', ''incomplete'')]
   \<and> map_option (map (\<lambda>x. (story_id x, story_status x)))
       (listStories_selected sample_load listing_fs [''l'', ''docs''] True [] [])
     = Some [(''US-103'', ''incomplete''), (''US-105'', ''complete'')]"
proof -
  let ?F = "map (feature_record sample_load listing_fs)
      (filter (loads sample_load listing_fs)
         (findYamlFiles listing_fs (join [''l'', ''docs''] ''feature-specs'')))"
  let ?S = "map (story_record sample_load listing_fs)
      (filter (loads sample_load listing_fs)
         (findYamlFiles listing_fs (join [''l'', ''docs''] ''user-stories'')))"
  note th = default_listing_hides_complete [of sample_load listing_fs "[''l'', ''docs'']"]
  have f: "map (\<lambda>x. (feature_id x, status x)) ?F
      = [(''F-01'', ''complete''), (''F-02'', ''in-progress''), (''F-03'', ''incomplete'')]"
    using listing_features th [THEN conjunct2, THEN conjunct2, THEN conjunct2, THEN conjunct2]
    by (simp add: comp_def)
  have s: "map (\<lambda>x. (story_id x, story_status x)) ?S
      = [(''US-103'', ''incomplete''), (''US-105'', ''complete'')]"
    using listing_stories th [THEN conjunct2, THEN conjunct2, THEN conjunct2, THEN conjunct2]
    by (simp add: comp_def)
  have ff: "map (\<lambda>x. (feature_id x, status x)) (filter (\<lambda>x. status x \<noteq> ''complete'') ?F)
      = filter (\<lambda>p. snd p \<noteq> ''complete'') (map (\<lambda>x. (feature_id x, status x)) ?F)"
    by (simp add: filter_map comp_def)
  have sf: "map (\<lambda>x. (story_id x, story_status x))
        (filter (\<lambda>x. story_status x \<noteq> ''complete'') ?S)
      = filter (\<lambda>p. snd p \<noteq> ''complete'') (map (\<lambda>x. (story_id x, story_status x)) ?S)"
    by (simp add: filter_map comp_def)
  show ?thesis
    by (simp only: th [THEN conjunct1] th [THEN conjunct2, THEN conjunct1]
        th [THEN conjunct2, THEN conjunct2, THEN conjunct1]
        th [THEN conjunct2, THEN conjunct2, THEN conjunct2, THEN conjunct1]
        option.map ff sf f s) simp
qed

subsection \<open>The logging functions in their common form\<close>

lemma logCheck_emit: "logCheck m v st = emit 1 0 0 (if v then [CHECK m] else []) st"
  by (simp add: logCheck_def emit_def Let_def)
lemma logPass_emit: "logPass m v st = emit 0 0 0 (if v then [PASS m] else []) st"
  by (simp add: logPass_def emit_def)
lemma logInfo_emit: "logInfo m v st = emit 0 0 0 (if v then [INFO m] else []) st"
  by (simp add: logInfo_def emit_def)
lemma logWarn_emit: "logWarn m st = emit 0 0 1 [WARN m] st"
  by (simp add: logWarn_def emit_def Let_def)
lemma logError_emit:
  "logError m h st = emit 0 1 0 (ERROR m # (case h of Some t \<Rightarrow> (if t \<noteq> [] then
      [HINT t] else []) | None \<Rightarrow> [])) st"
  by (simp add: logError_def emit_def Let_def split: option.splits)
lemma console_log_emit: "console_log s st = emit 0 0 0 [OUT s] st"
  by (simp add: console_log_def emit_def)

lemmas log_emit = logCheck_emit logPass_emit logInfo_emit logWarn_emit logError_emit
    console_log_emit

lemma keep_lines_emit:
  "keep_lines P (emit a b c ls st) = emit a b c (filter P ls) (keep_lines P st)"
  by (simp add: keep_lines_def emit_def)

lemma drops_verbose_simps:
  "drops_verbose P \<Longrightarrow> P (CHECK m) = False"
  "drops_verbose P \<Longrightarrow> P (PASS m) = False"
  "drops_verbose P \<Longrightarrow> P (INFO m) = False"
  by (simp_all add: drops_verbose_def)

lemma emit_counters:
  "totalChecks (emit a b c ls st) = totalChecks st + a"
  "totalErrors (emit a b c ls st) = totalErrors st + b"
  "totalWarnings (emit a b c ls st) = totalWarnings st + c"
  "console (emit a b c ls st) = console st @ ls"
  by (simp_all add: emit_def)

lemma keep_lines_counters:
  "totalChecks (keep_lines P st) = totalChecks st"
  "totalErrors (keep_lines P st) = totalErrors st"
  "totalWarnings (keep_lines P st) = totalWarnings st"
  "console (keep_lines P st) = filter P (console st)"
  by (simp_all add: keep_lines_def)

lemmas sim_simps = log_emit keep_lines_emit

lemma checkYamlField_Some:
  "checkYamlField Y fs f k l st =
     Some (field_filled Y fs f k,
           if field_blank Y fs f k
           then logWarn (l @ '': '' @ apostrophe @ k @ apostrophe @ '' is empty in '' @ basename
               f) st
           else st)"
  by (auto simp: checkYamlField_def field_filled_def field_blank_def getString_truthy Let_def)

lemma checkFileExists_eq:
  "checkFileExists fs f l v t st =
     (existsSync fs f,
      if existsSync fs f then logPass (l @ '' found'') v (logCheck (''Checking for '' @ l) v st)
      else logError (l @ '' missing: '' @ path_text f)
             (case t of Some t \<Rightarrow> (if t \<noteq> [] then Some
                 (''Get template with: pdocs template '' @ t) else None)
                | None \<Rightarrow> None)
             (logCheck (''Checking for '' @ l) v st))"
  by (simp add: checkFileExists_def Let_def)

lemmas push_if = if_distrib [of "keep_lines P" for P] if_distrib [of "map_option f" for f]
  if_distrib [of "filter P" for P]


lemma forEachM_total: "(\<And>x s. f x s \<noteq> None) \<Longrightarrow> forEachM f xs s \<noteq>
    None"
proof (induction xs arbitrary: s)
  case Nil
  show ?case by simp
next
  case (Cons x xs)
  from Cons.prems [of x s] obtain s' where "f x s = Some s'" by auto
  with Cons show ?case by simp
qed

lemma forEachM_sim:
  assumes "\<And>x a b. q a = q b \<Longrightarrow> map_option q (f x a) = map_option q (g x b)"
    and "q s1 = q s2"
  shows "map_option q (forEachM f xs s1) = map_option q (forEachM g xs s2)"
  using assms(2)
proof (induction xs arbitrary: s1 s2)
  case Nil
  then show ?case by simp
next
  case (Cons x xs)
  from assms(1) [OF Cons.prems, of x]
  have h: "map_option q (f x s1) = map_option q (g x s2)" .
  show ?case
  proof (cases "f x s1")
    case None
    with h have "g x s2 = None" by simp
    with None show ?thesis by simp
  next
    case (Some a)
    with h obtain b where b: "g x s2 = Some b" "q a = q b" by (cases "g x s2") auto
    from Cons.IH [OF b(2)] Some b(1) show ?thesis by simp
  qed
qed

lemma bind_sim:
  assumes "map_option q m1 = map_option q m2"
    and "\<And>a b. q a = q b \<Longrightarrow> map_option r (k1 a) = map_option r (k2 b)"
  shows "map_option r (m1 \<bind> k1) = map_option r (m2 \<bind> k2)"
proof (cases m1)
  case None
  with assms(1) have "m2 = None" by simp
  with None show ?thesis by simp
next
  case (Some a)
  with assms(1) obtain b where b: "m2 = Some b" "q a = q b" by (cases m2) auto
  from assms(2) [OF b(2)] Some b(1) show ?thesis by simp
qed

lemmas chk_defs = Let_def checkFileExists_eq checkYamlField_Some getArray_truthy getString_truthy
  getNestedString_truthy js_get_truthy

lemma checkPrd_total: "checkPrd Y fs d v st \<noteq> None"
  by (simp add: checkPrd_def chk_defs)

lemma checkPrd_sim:
  assumes "drops_verbose P" "keep_lines P s1 = keep_lines P s2"
  shows "map_option (keep_lines P) (checkPrd Y fs d v1 s1) = map_option (keep_lines P) (checkPrd Y
      fs d v2 s2)"
  using assms
  by (simp add: checkPrd_def chk_defs sim_simps drops_verbose_simps [OF assms(1)] push_if split
      del: if_split cong: if_cong)

lemma checkUserFlows_each_total: "checkUserFlows_each Y fs v f st \<noteq> None"
  by (simp add: checkUserFlows_each_def chk_defs)

lemma checkUserFlows_each_sim:
  assumes "drops_verbose P" "keep_lines P s1 = keep_lines P s2"
  shows "map_option (keep_lines P) (checkUserFlows_each Y fs v1 f s1)
       = map_option (keep_lines P) (checkUserFlows_each Y fs v2 f s2)"
  using assms
  by (simp add: checkUserFlows_each_def chk_defs sim_simps drops_verbose_simps [OF assms(1)]
      push_if split del: if_split cong: if_cong)


lemma checkUserFlows_total: "checkUserFlows Y fs d v st \<noteq> None"
  by (simp add: checkUserFlows_def chk_defs forEachM_total checkUserFlows_each_total
      del: not_None_eq)

lemma checkUserFlows_sim:
  assumes P: "drops_verbose P" and s: "keep_lines P s1 = keep_lines P s2"
  shows "map_option (keep_lines P) (checkUserFlows Y fs d v1 s1)
       = map_option (keep_lines P) (checkUserFlows Y fs d v2 s2)"
proof (cases "existsSync fs (join d ''user-flows'') \<and> findYamlFiles fs (join d
    ''user-flows'') \<noteq> []")
  case False
  then show ?thesis
    using P s by (auto simp add: checkUserFlows_def chk_defs sim_simps drops_verbose_simps [OF P])
next
  case True
  let ?m = "''User flow files found: '' @ string_of_nat (length (findYamlFiles fs (join d
      ''user-flows'')))"
  have "keep_lines P (logInfo ?m v1 (console_log (section_title ''User Flows'') s1))
      = keep_lines P (logInfo ?m v2 (console_log (section_title ''User Flows'') s2))"
    using P s by (simp add: sim_simps drops_verbose_simps [OF P])
  then have "map_option (keep_lines P)
        (forEachM (checkUserFlows_each Y fs v1) (findYamlFiles fs (join d ''user-flows''))
           (logInfo ?m v1 (console_log (section_title ''User Flows'') s1)))
      = map_option (keep_lines P)
        (forEachM (checkUserFlows_each Y fs v2) (findYamlFiles fs (join d ''user-flows''))
           (logInfo ?m v2 (console_log (section_title ''User Flows'') s2)))"
    by (intro forEachM_sim checkUserFlows_each_sim P)
  with True show ?thesis
    by (simp add: checkUserFlows_def Let_def)
qed

lemma checkUserStories_each_total: "checkUserStories_each Y fs f t \<noteq> None"
  by (cases t) (simp add: checkUserStories_each_def chk_defs del: not_None_eq)

lemma checkUserStories_each_sim:
  assumes "apfst (keep_lines P) t1 = apfst (keep_lines P) t2"
  shows "map_option (apfst (keep_lines P)) (checkUserStories_each Y fs f t1)
       = map_option (apfst (keep_lines P)) (checkUserStories_each Y fs f t2)"
  using assms
  by (cases t1; cases t2; cases "truthy (loadYaml Y fs f)")
     (simp_all add: checkUserStories_each_def chk_defs sim_simps)

lemma checkUserStories_total: "checkUserStories Y fs d v st \<noteq> None"
proof -
  obtain r where "forEachM (checkUserStories_each Y fs) (findYamlFiles fs (join d ''user-stories''))
     (logInfo (''User story files found: '' @ string_of_nat (length (findYamlFiles fs (join d
         ''user-stories''))))
        v (console_log (section_title ''User Stories'') st), 0, 0) = Some r"
    using forEachM_total [of "checkUserStories_each Y fs", OF checkUserStories_each_total] by blast
  then show ?thesis
    by (cases r) (simp add: checkUserStories_def Let_def del: not_None_eq)
qed

lemma tally_tail_sim:
  assumes "drops_verbose P" "apfst (keep_lines P) a = apfst (keep_lines P) b"
  shows "map_option (keep_lines P)
          (case a of (st, c, i) \<Rightarrow> Some (logInfo (m2 i) v1 (logInfo (m1 c) v1 st)))
       = map_option (keep_lines P)
          (case b of (st, c, i) \<Rightarrow> Some (logInfo (m2 i) v2 (logInfo (m1 c) v2 st)))"
  using assms by (cases a; cases b) (simp add: sim_simps drops_verbose_simps [OF assms(1)])

lemma checkUserStories_sim:
  assumes P: "drops_verbose P" and s: "keep_lines P s1 = keep_lines P s2"
  shows "map_option (keep_lines P) (checkUserStories Y fs d v1 s1)
       = map_option (keep_lines P) (checkUserStories Y fs d v2 s2)"
proof (cases "existsSync fs (join d ''user-stories'') \<and> findYamlFiles fs (join d
    ''user-stories'') \<noteq> []")
  case False
  then show ?thesis
    using P s by (auto simp add: checkUserStories_def chk_defs sim_simps drops_verbose_simps [OF P])
next
  case True
  let ?fl = "findYamlFiles fs (join d ''user-stories'')"
  let ?m = "''User story files found: '' @ string_of_nat (length ?fl)"
  have "apfst (keep_lines P) (logInfo ?m v1 (console_log (section_title ''User Stories'') s1),
      0::nat, 0::nat)
      = apfst (keep_lines P) (logInfo ?m v2 (console_log (section_title ''User Stories'') s2), 0,
          0)"
    using P s by (simp add: sim_simps drops_verbose_simps [OF P])
  then have "map_option (apfst (keep_lines P))
        (forEachM (checkUserStories_each Y fs) ?fl
           (logInfo ?m v1 (console_log (section_title ''User Stories'') s1), 0, 0))
      = map_option (apfst (keep_lines P))
        (forEachM (checkUserStories_each Y fs) ?fl
           (logInfo ?m v2 (console_log (section_title ''User Stories'') s2), 0, 0))"
    by (intro forEachM_sim checkUserStories_each_sim)
  then have "map_option (keep_lines P)
        (forEachM (checkUserStories_each Y fs) ?fl
           (logInfo ?m v1 (console_log (section_title ''User Stories'') s1), 0, 0)
         \<bind> (\<lambda>a. case a of (st, c, i) \<Rightarrow>
               Some (logInfo (''Incomplete stories: '' @ string_of_nat i) v1
                      (logInfo (''Complete stories: '' @ string_of_nat c) v1 st))))
      = map_option (keep_lines P)
        (forEachM (checkUserStories_each Y fs) ?fl
           (logInfo ?m v2 (console_log (section_title ''User Stories'') s2), 0, 0)
         \<bind> (\<lambda>a. case a of (st, c, i) \<Rightarrow>
               Some (logInfo (''Incomplete stories: '' @ string_of_nat i) v2
                      (logInfo (''Complete stories: '' @ string_of_nat c) v2 st))))"
    by (rule bind_sim) (rule tally_tail_sim [OF P])
  with True show ?thesis
    by (simp add: checkUserStories_def Let_def)
qed


lemma checkFeatureSpecs_each_total: "checkFeatureSpecs_each Y fs f t \<noteq> None"
  by (cases t) (simp add: checkFeatureSpecs_each_def chk_defs del: not_None_eq)

lemma checkFeatureSpecs_each_sim:
  assumes "apfst (keep_lines P) t1 = apfst (keep_lines P) t2"
  shows "map_option (apfst (keep_lines P)) (checkFeatureSpecs_each Y fs f t1)
       = map_option (apfst (keep_lines P)) (checkFeatureSpecs_each Y fs f t2)"
  using assms
  by (cases t1; cases t2; cases "truthy (loadYaml Y fs f)")
     (simp_all add: checkFeatureSpecs_each_def chk_defs sim_simps)

lemma checkFeatureSpecs_total: "checkFeatureSpecs Y fs d v st \<noteq> None"
proof -
  obtain r where "forEachM (checkFeatureSpecs_each Y fs) (findYamlFiles fs (join d
      ''feature-specs''))
     (logInfo (''Feature spec files found: '' @ string_of_nat (length (findYamlFiles fs (join d
         ''feature-specs''))))
        v (console_log (section_title ''Feature Specifications'') st), 0, 0) = Some r"
    using forEachM_total [of "checkFeatureSpecs_each Y fs", OF checkFeatureSpecs_each_total] by
        blast
  then show ?thesis
    by (cases r) (simp add: checkFeatureSpecs_def Let_def del: not_None_eq)
qed

lemma checkFeatureSpecs_sim:
  assumes P: "drops_verbose P" and s: "keep_lines P s1 = keep_lines P s2"
  shows "map_option (keep_lines P) (checkFeatureSpecs Y fs d v1 s1)
       = map_option (keep_lines P) (checkFeatureSpecs Y fs d v2 s2)"
proof (cases "existsSync fs (join d ''feature-specs'') \<and> findYamlFiles fs (join d
    ''feature-specs'') \<noteq> []")
  case False
  then show ?thesis
    using P s by (auto simp add: checkFeatureSpecs_def chk_defs sim_simps drops_verbose_simps [OF
        P])
next
  case True
  let ?fl = "findYamlFiles fs (join d ''feature-specs'')"
  let ?m = "''Feature spec files found: '' @ string_of_nat (length ?fl)"
  have "apfst (keep_lines P) (logInfo ?m v1 (console_log (section_title
      ''Feature Specifications'') s1), 0::nat, 0::nat)
      = apfst (keep_lines P) (logInfo ?m v2 (console_log (section_title
          ''Feature Specifications'') s2), 0, 0)"
    using P s by (simp add: sim_simps drops_verbose_simps [OF P])
  then have "map_option (apfst (keep_lines P))
        (forEachM (checkFeatureSpecs_each Y fs) ?fl
           (logInfo ?m v1 (console_log (section_title ''Feature Specifications'') s1), 0, 0))
      = map_option (apfst (keep_lines P))
        (forEachM (checkFeatureSpecs_each Y fs) ?fl
           (logInfo ?m v2 (console_log (section_title ''Feature Specifications'') s2), 0, 0))"
    by (intro forEachM_sim checkFeatureSpecs_each_sim)
  then have "map_option (keep_lines P)
        (forEachM (checkFeatureSpecs_each Y fs) ?fl
           (logInfo ?m v1 (console_log (section_title ''Feature Specifications'') s1), 0, 0)
         \<bind> (\<lambda>a. case a of (st, c, i) \<Rightarrow>
               Some (logInfo (''Incomplete features: '' @ string_of_nat i) v1
                      (logInfo (''Complete features: '' @ string_of_nat c) v1 st))))
      = map_option (keep_lines P)
        (forEachM (checkFeatureSpecs_each Y fs) ?fl
           (logInfo ?m v2 (console_log (section_title ''Feature Specifications'') s2), 0, 0)
         \<bind> (\<lambda>a. case a of (st, c, i) \<Rightarrow>
               Some (logInfo (''Incomplete features: '' @ string_of_nat i) v2
                      (logInfo (''Complete features: '' @ string_of_nat c) v2 st))))"
    by (rule bind_sim) (rule tally_tail_sim [OF P])
  with True show ?thesis
    by (simp add: checkFeatureSpecs_def Let_def)
qed

lemma checkSystemDesign_total: "checkSystemDesign Y fs d v st \<noteq> None"
  by (simp add: checkSystemDesign_def chk_defs del: not_None_eq)

lemma checkSystemDesign_sim:
  assumes "drops_verbose P" "keep_lines P s1 = keep_lines P s2"
  shows "map_option (keep_lines P) (checkSystemDesign Y fs d v1 s1)
       = map_option (keep_lines P) (checkSystemDesign Y fs d v2 s2)"
  using assms
  by (simp add: checkSystemDesign_def chk_defs sim_simps drops_verbose_simps [OF assms(1)] push_if
      split del: if_split cong: if_cong)

lemma checkApiContracts_total: "checkApiContracts Y fs d v st \<noteq> None"
  by (simp add: checkApiContracts_def chk_defs del: not_None_eq)

lemma checkApiContracts_sim:
  assumes "drops_verbose P" "keep_lines P s1 = keep_lines P s2"
  shows "map_option (keep_lines P) (checkApiContracts Y fs d v1 s1)
       = map_option (keep_lines P) (checkApiContracts Y fs d v2 s2)"
  using assms
  by (simp add: checkApiContracts_def chk_defs sim_simps drops_verbose_simps [OF assms(1)] push_if
      split del: if_split cong: if_cong)

lemma checkDataPlan_total: "checkDataPlan Y fs d v st \<noteq> None"
  by (simp add: checkDataPlan_def chk_defs del: not_None_eq)

lemma checkDataPlan_sim:
  assumes "drops_verbose P" "keep_lines P s1 = keep_lines P s2"
  shows "map_option (keep_lines P) (checkDataPlan Y fs d v1 s1)
       = map_option (keep_lines P) (checkDataPlan Y fs d v2 s2)"
  using assms
  by (simp add: checkDataPlan_def chk_defs sim_simps drops_verbose_simps [OF assms(1)] push_if
      split del: if_split cong: if_cong)

lemma checkDesignSpec_total: "checkDesignSpec Y fs d v st \<noteq> None"
  by (simp add: checkDesignSpec_def chk_defs del: not_None_eq)

lemma checkDesignSpec_sim:
  assumes "drops_verbose P" "keep_lines P s1 = keep_lines P s2"
  shows "map_option (keep_lines P) (checkDesignSpec Y fs d v1 s1)
       = map_option (keep_lines P) (checkDesignSpec Y fs d v2 s2)"
  using assms
  by (simp add: checkDesignSpec_def chk_defs sim_simps drops_verbose_simps [OF assms(1)] push_if
      split del: if_split cong: if_cong)


lemma object_truthy: "js_typeof f = ''object'' \<Longrightarrow> f \<noteq> JNull
    \<Longrightarrow> truthy f"
  by (cases f) simp_all

lemma mapM_Some_map: "(\<And>x. f x = Some (g x)) \<Longrightarrow> mapM f xs = Some (map g xs)"
  by (induction xs) simp_all

lemma someM_Some_ex: "(\<And>x. f x = Some (p x)) \<Longrightarrow> someM f xs = Some (list_ex p
    xs)"
  by (induction xs) simp_all

lemma checkCrossReferences_featureIds_eq:
  "checkCrossReferences_featureIds features
     = Some (filter (\<lambda>i. i \<noteq> []) (map feature_id_of features))"
proof -
  have "mapM (\<lambda>f. if js_typeof f = ''object'' \<and> f \<noteq> JNull then getString f
      ''id'' else Some [])
          features = Some (map feature_id_of features)"
    by (rule mapM_Some_map) (simp add: feature_id_of_def getString_truthy object_truthy)
  then show ?thesis
    by (simp add: checkCrossReferences_featureIds_def)
qed

lemma checkCrossReferences_hasSpec_eq:
  "checkCrossReferences_hasSpec Y fs files i = Some (list_ex (spec_declares Y fs i) files)"
  unfolding checkCrossReferences_hasSpec_def
  by (rule someM_Some_ex) (simp add: spec_declares_def Let_def getString_truthy)

lemma checkCrossReferences_feature_eq:
  "checkCrossReferences_feature Y fs v files i st =
     Some (if list_ex (spec_declares Y fs i) files
           then logPass (''Feature '' @ i @ '' has specification'') v
                  (logCheck (''Checking if '' @ i @ '' has specification'') v st)
           else logWarn (''Feature '' @ i @ '' (in PRD) has no specification file'')
                  (logCheck (''Checking if '' @ i @ '' has specification'') v st))"
  by (simp add: checkCrossReferences_feature_def Let_def checkCrossReferences_hasSpec_eq)

lemma checkCrossReferences_story_eq:
  "checkCrossReferences_story Y fs ids f st =
     Some (if story_dangling Y fs ids f
           then logWarn (''Story '' @ story_name Y fs f @ '' references unknown feature: ''
                         @ story_ref Y fs f) st
           else st)"
  by (cases "truthy (loadYaml Y fs f)")
     (simp_all add: checkCrossReferences_story_def Let_def getString_truthy story_dangling_def
        story_ref_def story_name_def)

lemma checkCrossReferences_feature_sim:
  assumes "drops_verbose P" "keep_lines P s1 = keep_lines P s2"
  shows "map_option (keep_lines P) (checkCrossReferences_feature Y fs v1 files i s1)
       = map_option (keep_lines P) (checkCrossReferences_feature Y fs v2 files i s2)"
  using assms by (simp add: checkCrossReferences_feature_eq sim_simps drops_verbose_simps [OF
      assms(1)])

lemma checkCrossReferences_story_sim:
  assumes "keep_lines P s1 = keep_lines P s2"
  shows "map_option (keep_lines P) (checkCrossReferences_story Y fs ids f s1)
       = map_option (keep_lines P) (checkCrossReferences_story Y fs ids f s2)"
  using assms by (simp add: checkCrossReferences_story_eq sim_simps)

lemma checkCrossReferences_feature_total: "checkCrossReferences_feature Y fs v files i st \<noteq>
    None"
  by (simp add: checkCrossReferences_feature_eq)

lemma checkCrossReferences_story_total: "checkCrossReferences_story Y fs ids f st \<noteq> None"
  by (simp add: checkCrossReferences_story_eq)

text \<open>The two loops of the cross-reference check, after the guards.\<close>

lemma checkCrossReferences_main:
  assumes "cl" "truthy (loadYaml Y fs (join d ''product-requirements.yaml''))"
    "prd_feature_ids Y fs d \<noteq> []"
  shows "checkCrossReferences Y fs d cl v st =
     (if existsSync fs (join d ''feature-specs'')
      then forEachM (checkCrossReferences_feature Y fs v (findYamlFiles fs (join d
          ''feature-specs'')))
             (prd_feature_ids Y fs d) (console_log (section_title ''Cross-Reference Validation'')
                 st)
      else Some (console_log (section_title ''Cross-Reference Validation'') st))
     \<bind> (\<lambda>st. if existsSync fs (join d ''user-stories'')
               then forEachM (checkCrossReferences_story Y fs (prd_feature_ids Y fs d))
                      (findYamlFiles fs (join d ''user-stories'')) st
               else Some st)"
  using assms
  by (simp add: checkCrossReferences_def Let_def getArray_truthy checkCrossReferences_featureIds_eq
      prd_feature_ids_def)

lemma checkCrossReferences_guards:
  "\<not> (cl \<and> truthy (loadYaml Y fs (join d ''product-requirements.yaml'')) \<and>
      prd_feature_ids Y fs d \<noteq> [])
   \<Longrightarrow> checkCrossReferences Y fs d cl v st =
     Some (if \<not> cl then st
           else if \<not> truthy (loadYaml Y fs (join d ''product-requirements.yaml''))
           then logWarn ''No PRD file to cross-reference''
                  (console_log (section_title ''Cross-Reference Validation'') st)
           else logWarn ''No features in PRD to cross-reference''
                  (console_log (section_title ''Cross-Reference Validation'') st))"
  by (auto simp add: checkCrossReferences_def Let_def getArray_truthy
      checkCrossReferences_featureIds_eq
      prd_feature_ids_def)

lemma checkCrossReferences_total: "checkCrossReferences Y fs d cl v st \<noteq> None"
proof (cases "cl \<and> truthy (loadYaml Y fs (join d ''product-requirements.yaml'')) \<and>
    prd_feature_ids Y fs d \<noteq> []")
  case False
  from checkCrossReferences_guards [OF this] show ?thesis by simp
next
  case True
  let ?S = "console_log (section_title ''Cross-Reference Validation'') st"
  obtain a where a: "(if existsSync fs (join d ''feature-specs'')
      then forEachM (checkCrossReferences_feature Y fs v (findYamlFiles fs (join d
          ''feature-specs'')))
             (prd_feature_ids Y fs d) ?S
      else Some ?S) = Some a"
    using forEachM_total [of "checkCrossReferences_feature Y fs v (findYamlFiles fs (join d
        ''feature-specs''))",
        OF checkCrossReferences_feature_total]
    by (cases "existsSync fs (join d ''feature-specs'')") auto
  have "(if existsSync fs (join d ''user-stories'')
               then forEachM (checkCrossReferences_story Y fs (prd_feature_ids Y fs d))
                      (findYamlFiles fs (join d ''user-stories'')) a
               else Some a) \<noteq> None"
    using forEachM_total [of "checkCrossReferences_story Y fs (prd_feature_ids Y fs d)",
        OF checkCrossReferences_story_total]
    by (cases "existsSync fs (join d ''user-stories'')") auto
  with a True show ?thesis
    by (simp add: checkCrossReferences_main del: not_None_eq)
qed

lemma checkCrossReferences_sim:
  assumes P: "drops_verbose P" and s: "keep_lines P s1 = keep_lines P s2"
  shows "map_option (keep_lines P) (checkCrossReferences Y fs d cl v1 s1)
       = map_option (keep_lines P) (checkCrossReferences Y fs d cl v2 s2)"
proof (cases "cl \<and> truthy (loadYaml Y fs (join d ''product-requirements.yaml'')) \<and>
    prd_feature_ids Y fs d \<noteq> []")
  case False
  show ?thesis
    using s by (simp add: checkCrossReferences_guards [OF False] sim_simps drops_verbose_simps [OF
        P])
next
  case True
  then have g: "cl" "truthy (loadYaml Y fs (join d ''product-requirements.yaml''))"
    "prd_feature_ids Y fs d \<noteq> []" by simp_all
  have s': "keep_lines P (console_log (section_title ''Cross-Reference Validation'') s1)
          = keep_lines P (console_log (section_title ''Cross-Reference Validation'') s2)"
    using s by (simp add: sim_simps drops_verbose_simps [OF P])
  show ?thesis
    unfolding checkCrossReferences_main [OF g]
  proof (rule bind_sim [where q = "keep_lines P"])
    show "map_option (keep_lines P)
       (if existsSync fs (join d ''feature-specs'')
        then forEachM (checkCrossReferences_feature Y fs v1 (findYamlFiles fs (join d
            ''feature-specs'')))
               (prd_feature_ids Y fs d) (console_log (section_title
                   ''Cross-Reference Validation'') s1)
        else Some (console_log (section_title ''Cross-Reference Validation'') s1))
      = map_option (keep_lines P)
       (if existsSync fs (join d ''feature-specs'')
        then forEachM (checkCrossReferences_feature Y fs v2 (findYamlFiles fs (join d
            ''feature-specs'')))
               (prd_feature_ids Y fs d) (console_log (section_title
                   ''Cross-Reference Validation'') s2)
        else Some (console_log (section_title ''Cross-Reference Validation'') s2))"
    proof (cases "existsSync fs (join d ''feature-specs'')")
      case True
      then show ?thesis
        by (simp only: if_True) (intro forEachM_sim checkCrossReferences_feature_sim P s')
    next
      case False
      then show ?thesis using s' by simp
    qed
  next
    fix a b
    assume ab: "keep_lines P a = keep_lines P b"
    show "map_option (keep_lines P)
        (if existsSync fs (join d ''user-stories'')
         then forEachM (checkCrossReferences_story Y fs (prd_feature_ids Y fs d))
                (findYamlFiles fs (join d ''user-stories'')) a
         else Some a)
      = map_option (keep_lines P)
        (if existsSync fs (join d ''user-stories'')
         then forEachM (checkCrossReferences_story Y fs (prd_feature_ids Y fs d))
                (findYamlFiles fs (join d ''user-stories'')) b
         else Some b)"
    proof (cases "existsSync fs (join d ''user-stories'')")
      case True
      then show ?thesis
        by (simp only: if_True) (intro forEachM_sim checkCrossReferences_story_sim ab)
    next
      case False
      then show ?thesis using ab by simp
    qed
  qed
qed

subsection \<open>The summary and the whole run\<close>

lemma generateSummary_code: "fst (generateSummary st) = (if totalErrors st = 0 then 0 else 1)"
  by (simp add: generateSummary_def Let_def log_emit emit_counters)

lemma generateSummary_counters:
  "totalChecks (snd (generateSummary st)) = totalChecks st"
  "totalErrors (snd (generateSummary st)) = totalErrors st"
  "totalWarnings (snd (generateSummary st)) = totalWarnings st"
  by (simp_all add: generateSummary_def Let_def log_emit emit_counters)


lemma keep_lines_eq_counters:
  assumes "keep_lines P s1 = keep_lines P s2"
  shows "totalChecks s1 = totalChecks s2" "totalErrors s1 = totalErrors s2"
    "totalWarnings s1 = totalWarnings s2" "filter P (console s1) = filter P (console s2)"
proof -
  from assms have "totalChecks (keep_lines P s1) = totalChecks (keep_lines P s2)"
    "totalErrors (keep_lines P s1) = totalErrors (keep_lines P s2)"
    "totalWarnings (keep_lines P s1) = totalWarnings (keep_lines P s2)"
    "console (keep_lines P s1) = console (keep_lines P s2)"
    by simp_all
  then show "totalChecks s1 = totalChecks s2" "totalErrors s1 = totalErrors s2"
    "totalWarnings s1 = totalWarnings s2" "filter P (console s1) = filter P (console s2)"
    by (simp_all add: keep_lines_counters)
qed

lemma generateSummary_sim:
  assumes "keep_lines P s1 = keep_lines P s2"
  shows "apsnd (keep_lines P) (generateSummary s1) = apsnd (keep_lines P) (generateSummary s2)"
proof -
  note c = keep_lines_eq_counters [OF assms]
  show ?thesis
    by (cases "totalErrors s2 = 0"; cases "totalWarnings s2 = 0")
       (simp_all add: generateSummary_def Let_def log_emit emit_counters keep_lines_emit c(1,2,3)
           assms)
qed


lemma check_missing:
  "\<not> existsSync fs d \<Longrightarrow>
   check Y fs d opts st =
     Some (1, logError (''Documentation directory not found: '' @ path_text d) None
       (console_log [] (console_log (''Documentation directory: '' @ path_text d)
         (console_log (repeat hbar 50) (console_log ''Project Documentation Check''
            (console_log (repeat hbar 50) st))))))"
  by (simp add: check_def Let_def)

lemma check_present:
  "existsSync fs d \<Longrightarrow>
   check Y fs d opts st =
     checkPrd Y fs d (verbose opts)
       (console_log [] (console_log (''Documentation directory: '' @ path_text d)
         (console_log (repeat hbar 50) (console_log ''Project Documentation Check''
            (console_log (repeat hbar 50) st)))))
     \<bind> (\<lambda>st. checkUserFlows Y fs d (verbose opts) st
     \<bind> (\<lambda>st. checkUserStories Y fs d (verbose opts) st
     \<bind> (\<lambda>st. checkFeatureSpecs Y fs d (verbose opts) st
     \<bind> (\<lambda>st. checkSystemDesign Y fs d (verbose opts) st
     \<bind> (\<lambda>st. checkApiContracts Y fs d (verbose opts) st
     \<bind> (\<lambda>st. checkDataPlan Y fs d (verbose opts) st
     \<bind> (\<lambda>st. checkDesignSpec Y fs d (verbose opts) st
     \<bind> (\<lambda>st. checkCrossReferences Y fs d (checkLinks opts) (verbose opts) st
     \<bind> (\<lambda>st. Some (generateSummary st))))))))))"
  by (simp add: check_def Let_def)


lemma check_returns:
  "\<exists>c st'. check Y fs d opts st = Some (c, st') \<and> (c = 0 \<longleftrightarrow>
      totalErrors st' = 0) \<and> c \<le> 1"
proof (cases "existsSync fs d")
  case False
  then show ?thesis
    by (simp add: check_missing logError_emit emit_counters)
next
  case True
  let ?v = "verbose opts"
  obtain s1 where 1: "checkPrd Y fs d ?v
       (console_log [] (console_log (''Documentation directory: '' @ path_text d)
         (console_log (repeat hbar 50) (console_log ''Project Documentation Check''
            (console_log (repeat hbar 50) st))))) = Some s1"
    using checkPrd_total by blast
  obtain s2 where 2: "checkUserFlows Y fs d ?v s1 = Some s2" using checkUserFlows_total by blast
  obtain s3 where 3: "checkUserStories Y fs d ?v s2 = Some s3" using checkUserStories_total by blast
  obtain s4 where 4: "checkFeatureSpecs Y fs d ?v s3 = Some s4" using checkFeatureSpecs_total by
      blast
  obtain s5 where 5: "checkSystemDesign Y fs d ?v s4 = Some s5" using checkSystemDesign_total by
      blast
  obtain s6 where 6: "checkApiContracts Y fs d ?v s5 = Some s6" using checkApiContracts_total by
      blast
  obtain s7 where 7: "checkDataPlan Y fs d ?v s6 = Some s7" using checkDataPlan_total by blast
  obtain s8 where 8: "checkDesignSpec Y fs d ?v s7 = Some s8" using checkDesignSpec_total by blast
  obtain s9 where 9: "checkCrossReferences Y fs d (checkLinks opts) ?v s8 = Some s9"
    using checkCrossReferences_total by blast
  have c: "check Y fs d opts st = Some (generateSummary s9)"
    by (simp only: check_present [OF True] 1 2 3 4 5 6 7 8 9 Option.bind.simps)
  obtain c st' where g: "generateSummary s9 = (c, st')" by (cases "generateSummary s9")
  from generateSummary_code [of s9] generateSummary_counters(2) [of s9] g
  have "(c = 0 \<longleftrightarrow> totalErrors st' = 0) \<and> c \<le> 1"
    by (auto split: if_splits)
  with c g show ?thesis by simp
qed


lemma Some_sim:
  "keep_lines P a = keep_lines P b \<Longrightarrow>
   map_option (apsnd (keep_lines P)) (Some (generateSummary a))
     = map_option (apsnd (keep_lines P)) (Some (generateSummary b))"
  using generateSummary_sim [of P a b] by simp

lemma check_sim:
  assumes P: "drops_verbose P" and s: "keep_lines P s1 = keep_lines P s2"
    and l: "checkLinks o1 = checkLinks o2"
  shows "map_option (apsnd (keep_lines P)) (check Y fs d o1 s1)
       = map_option (apsnd (keep_lines P)) (check Y fs d o2 s2)"
proof (cases "existsSync fs d")
  case False
  then show ?thesis
    using s by (simp add: check_missing sim_simps)
next
  case True
  have s0: "keep_lines P (console_log [] (console_log (''Documentation directory: '' @ path_text d)
         (console_log (repeat hbar 50) (console_log ''Project Documentation Check''
            (console_log (repeat hbar 50) s1)))))
      = keep_lines P (console_log [] (console_log (''Documentation directory: '' @ path_text d)
         (console_log (repeat hbar 50) (console_log ''Project Documentation Check''
            (console_log (repeat hbar 50) s2)))))"
    by (simp only: log_emit keep_lines_emit s)
  show ?thesis
    unfolding check_present [OF True] l
    apply (rule bind_sim [where q = "keep_lines P"])
     apply (rule checkPrd_sim [OF P s0])
    apply (rule bind_sim [where q = "keep_lines P"])
     apply (erule checkUserFlows_sim [OF P])
    apply (rule bind_sim [where q = "keep_lines P"])
     apply (erule checkUserStories_sim [OF P])
    apply (rule bind_sim [where q = "keep_lines P"])
     apply (erule checkFeatureSpecs_sim [OF P])
    apply (rule bind_sim [where q = "keep_lines P"])
     apply (erule checkSystemDesign_sim [OF P])
    apply (rule bind_sim [where q = "keep_lines P"])
     apply (erule checkApiContracts_sim [OF P])
    apply (rule bind_sim [where q = "keep_lines P"])
     apply (erule checkDataPlan_sim [OF P])
    apply (rule bind_sim [where q = "keep_lines P"])
     apply (erule checkDesignSpec_sim [OF P])
    apply (rule bind_sim [where q = "keep_lines P"])
     apply (erule checkCrossReferences_sim [OF P])
    apply (erule Some_sim)
    done
qed

subsection \<open>Exit status and verbosity\<close>

text \<open>
  The run on the tree \<open>project_fs\<close>, quiet and verbose: exit status 0, five checks, no
  error, four warnings.
\<close>

lemma project_quiet:
  "map_option outcome (check sample_load project_fs [''c'', ''docs'']
       \<lparr>verbose = False, checkLinks = True, format = ''summary''\<rparr> result_init)
     = Some (0, 5, 0, 4)"
  by code_simp

lemma project_verbose:
  "map_option outcome (check sample_load project_fs [''c'', ''docs'']
       \<lparr>verbose = True, checkLinks = True, format = ''summary''\<rparr> result_init)
     = Some (0, 5, 0, 4)"
  by code_simp

text \<open>
  Claim C1. For every documentation tree, every start state and every option, \<open>check\<close>
  ends the process (no exception escapes it) with exit status 0 or 1, and the status is 0
  if and only if the error counter is zero at the end of the run. Warnings play no part:
  with zero errors the status is 0 whatever the warning counter.
\<close>

theorem check_exit_status:
  "\<exists>c st'. check Y fs d opts st = Some (c, st') \<and> (c = 0 \<longleftrightarrow>
      totalErrors st' = 0) \<and> (c = 0 \<or> c = 1)"
proof -
  from check_returns [of Y fs d opts st] obtain c st' where
    r: "check Y fs d opts st = Some (c, st')" "c = 0 \<longleftrightarrow> totalErrors st' = 0" "c
        \<le> 1"
    by (elim exE conjE)
  from r(3) have "c = 0 \<or> c = 1" by arith
  with r(1,2) show ?thesis by simp
qed

text \<open>On \<open>project_fs\<close> the run ends with four warnings, no error and exit status 0.\<close>

theorem check_exit_status_witness:
  "\<exists>st'. check sample_load project_fs [''c'', ''docs'']
       \<lparr>verbose = False, checkLinks = True, format = ''summary''\<rparr> result_init = Some
           (0, st')
     \<and> totalErrors st' = 0 \<and> totalWarnings st' = 4"
proof -
  from check_exit_status [of sample_load project_fs "[''c'', ''docs'']"
      "\<lparr>verbose = False, checkLinks = True, format = ''summary''\<rparr>" result_init]
  obtain c st' where r: "check sample_load project_fs [''c'', ''docs'']
       \<lparr>verbose = False, checkLinks = True, format = ''summary''\<rparr> result_init = Some
           (c, st')"
    and z: "c = 0 \<longleftrightarrow> totalErrors st' = 0"
    by (elim exE conjE)
  from project_quiet r have o: "c = 0" "totalWarnings st' = 4"
    by (simp_all add: outcome_def)
  with z have "totalErrors st' = 0" by simp
  with r o show ?thesis by simp
qed


text \<open>
  Claim C8. For every documentation tree and start state, the verbose run and the quiet
  run of \<open>check\<close> end with the same exit status and the same three counters, and they
  print the same lines, in the same order, apart from the progress lines of \<open>logCheck\<close>,
  \<open>logPass\<close> and \<open>logInfo\<close>, which only verbosity controls.
\<close>

theorem verbosity_keeps_counters:
  "\<exists>c s1 s2. check Y fs d \<lparr>verbose = True, checkLinks = cl, format = fm\<rparr> st
      = Some (c, s1)
     \<and> check Y fs d \<lparr>verbose = False, checkLinks = cl, format = fm\<rparr> st = Some
         (c, s2)
     \<and> totalChecks s1 = totalChecks s2
     \<and> totalErrors s1 = totalErrors s2
     \<and> totalWarnings s1 = totalWarnings s2
     \<and> filter (\<lambda>l. \<not> verbose_only l) (console s1) = filter (\<lambda>l. \<not>
         verbose_only l) (console s2)"
proof -
  let ?P = "\<lambda>l. \<not> verbose_only l"
  let ?o1 = "\<lparr>verbose = True, checkLinks = cl, format = fm\<rparr>"
  let ?o2 = "\<lparr>verbose = False, checkLinks = cl, format = fm\<rparr>"
  have P: "drops_verbose ?P"
    by (simp add: drops_verbose_def verbose_only_def)
  from check_returns [of Y fs d ?o1 st] obtain c1 s1 where 1: "check Y fs d ?o1 st = Some (c1, s1)"
    by (elim exE conjE)
  from check_returns [of Y fs d ?o2 st] obtain c2 s2 where 2: "check Y fs d ?o2 st = Some (c2, s2)"
    by (elim exE conjE)
  have "map_option (apsnd (keep_lines ?P)) (check Y fs d ?o1 st)
      = map_option (apsnd (keep_lines ?P)) (check Y fs d ?o2 st)"
    by (rule check_sim [OF P]) simp_all
  with 1 2 have c: "c1 = c2" and k: "keep_lines ?P s1 = keep_lines ?P s2"
    by simp_all
  from keep_lines_eq_counters [OF k] 1 2 c show ?thesis
    by simp
qed

text \<open>Both runs on \<open>project_fs\<close>: status 0, five checks, no error, four warnings.\<close>

theorem verbosity_keeps_counters_witness:
  "\<exists>s1 s2. check sample_load project_fs [''c'', ''docs'']
         \<lparr>verbose = True, checkLinks = True, format = ''summary''\<rparr> result_init =
             Some (0, s1)
     \<and> check sample_load project_fs [''c'', ''docs'']
         \<lparr>verbose = False, checkLinks = True, format = ''summary''\<rparr> result_init =
             Some (0, s2)
     \<and> totalChecks s1 = 5 \<and> totalChecks s2 = 5
     \<and> totalErrors s1 = 0 \<and> totalErrors s2 = 0
     \<and> totalWarnings s1 = 4 \<and> totalWarnings s2 = 4
     \<and> filter (\<lambda>l. \<not> verbose_only l) (console s1) = filter (\<lambda>l. \<not>
         verbose_only l) (console s2)"
proof -
  from verbosity_keeps_counters [of sample_load project_fs "[''c'', ''docs'']" True "''summary''"
      result_init]
  obtain c s1 s2 where
    1: "check sample_load project_fs [''c'', ''docs'']
         \<lparr>verbose = True, checkLinks = True, format = ''summary''\<rparr> result_init =
             Some (c, s1)"
    and 2: "check sample_load project_fs [''c'', ''docs'']
         \<lparr>verbose = False, checkLinks = True, format = ''summary''\<rparr> result_init =
             Some (c, s2)"
    and f: "filter (\<lambda>l. \<not> verbose_only l) (console s1) = filter (\<lambda>l. \<not>
        verbose_only l) (console s2)"
    by (elim exE conjE)
  from project_verbose 1 have a: "c = 0" "totalChecks s1 = 5" "totalErrors s1 = 0" "totalWarnings
      s1 = 4"
    by (simp_all add: outcome_def)
  from project_quiet 2 have b: "totalChecks s2 = 5" "totalErrors s2 = 0" "totalWarnings s2 = 4"
    by (simp_all add: outcome_def)
  from 1 2 a b f show ?thesis by simp
qed

subsection \<open>Cross references\<close>

lemma emit_emit:
  "emit a b c ls (emit a' b' c' ls' st) = emit (a' + a) (b' + b) (c' + c) (ls' @ ls) st"
  by (simp add: emit_def)

lemma emit_zero: "emit 0 0 0 [] st = st"
  by (simp add: emit_def)

lemma story_loop:
  "forEachM (checkCrossReferences_story Y fs ids) files st =
     Some (emit 0 0 (length (filter (story_dangling Y fs ids) files))
             (concat (map (\<lambda>f. if story_dangling Y fs ids f then [story_warning Y fs f]
                 else []) files))
             st)"
proof (induction files arbitrary: st)
  case Nil
  show ?case by (simp add: emit_zero)
next
  case (Cons f files)
  show ?case
    by (simp add: checkCrossReferences_story_eq [of Y fs ids f st] Cons logWarn_emit emit_emit
        story_warning_def)
qed

lemma feature_loop:
  "forEachM (checkCrossReferences_feature Y fs v files) ids st =
     Some (emit (length ids) 0 (length (filter (\<lambda>i. \<not> list_ex (spec_declares Y fs i)
         files) ids))
             (concat (map (feature_lines Y fs v files) ids)) st)"
proof (induction ids arbitrary: st)
  case Nil
  show ?case by (simp add: emit_zero)
next
  case (Cons i ids)
  show ?case
    by (simp add: checkCrossReferences_feature_eq [of Y fs v files i st] Cons log_emit emit_emit
        feature_lines_def)
qed

text \<open>
  Claim C7, as amended. When cross-reference checking is enabled and the PRD loads and
  declares at least one feature identifier, then after the pass over the feature
  identifiers the cross-reference check prints, for every story file in order, the
  dangling-reference warning that names the story and its reference if and only if the
  file loads and declares a \<open>feature_id\<close> that is not empty, is not the placeholder
  \<^verbatim>\<open>F-##\<close> and is not among the identifiers the PRD declares; it prints nothing else,
  and counts one warning for each. (With cross-reference checking disabled,
  without a PRD that loads, or with a PRD that declares no identifier, the check returns
  before it looks at any story.)
\<close>

theorem dangling_story_warnings:
  assumes "truthy (loadYaml Y fs (join d ''product-requirements.yaml''))"
    and "prd_feature_ids Y fs d \<noteq> []"
  shows "\<exists>s1 s2.
      (if existsSync fs (join d ''feature-specs'')
       then forEachM (checkCrossReferences_feature Y fs v (findYamlFiles fs (join d
           ''feature-specs'')))
              (prd_feature_ids Y fs d) (console_log (section_title ''Cross-Reference Validation'')
                  st)
       else Some (console_log (section_title ''Cross-Reference Validation'') st)) = Some s1
    \<and> checkCrossReferences Y fs d True v st = Some s2
    \<and> console s2 = console s1 @
         concat (map (\<lambda>f. if story_dangling Y fs (prd_feature_ids Y fs d) f
                          then [story_warning Y fs f] else [])
                   (findYamlFiles fs (join d ''user-stories'')))
    \<and> totalWarnings s2 = totalWarnings s1 +
         length (filter (story_dangling Y fs (prd_feature_ids Y fs d))
                   (findYamlFiles fs (join d ''user-stories'')))
    \<and> totalErrors s2 = totalErrors s1 \<and> totalChecks s2 = totalChecks s1"
proof -
  let ?S = "console_log (section_title ''Cross-Reference Validation'') st"
  obtain s1 where s1: "(if existsSync fs (join d ''feature-specs'')
       then forEachM (checkCrossReferences_feature Y fs v (findYamlFiles fs (join d
           ''feature-specs'')))
              (prd_feature_ids Y fs d) ?S
       else Some ?S) = Some s1"
    by (cases "existsSync fs (join d ''feature-specs'')") (simp_all add: feature_loop)
  have m: "checkCrossReferences Y fs d True v st =
      forEachM (checkCrossReferences_story Y fs (prd_feature_ids Y fs d))
        (findYamlFiles fs (join d ''user-stories'')) s1"
  proof (cases "existsSync fs (join d ''user-stories'')")
    case True
    with s1 show ?thesis
      by (simp only: checkCrossReferences_main [OF TrueI assms(1,2)] Option.bind.simps if_True)
  next
    case False
    then have "findYamlFiles fs (join d ''user-stories'') = []"
      by (simp add: findYamlFiles_def)
    with s1 False show ?thesis
      by (simp only: checkCrossReferences_main [OF TrueI assms(1,2)] Option.bind.simps if_False
          forEachM.simps)
  qed
  let ?s2 = "emit 0 0
      (length (filter (story_dangling Y fs (prd_feature_ids Y fs d))
                 (findYamlFiles fs (join d ''user-stories''))))
      (concat (map (\<lambda>f. if story_dangling Y fs (prd_feature_ids Y fs d) f
                            then [story_warning Y fs f] else [])
                 (findYamlFiles fs (join d ''user-stories''))))
      s1"
  have m2: "checkCrossReferences Y fs d True v st = Some ?s2"
    by (simp only: m story_loop)
  show ?thesis
    by (intro exI [of _ s1] exI [of _ ?s2] conjI s1 m2) (simp_all add: emit_counters)
qed

text \<open>The tree \<open>dangling_fs\<close>: three stories, of which only US-101 dangles.\<close>

lemma dangling_files:
  "findYamlFiles dangling_fs (join [''x'', ''docs''] ''user-stories'')
     = [[''x'', ''docs'', ''user-stories'', ''us-101.yaml''],
        [''x'', ''docs'', ''user-stories'', ''us-103.yaml''],
        [''x'', ''docs'', ''user-stories'', ''us-104.yaml'']]"
  by code_simp

lemma dangling_ids: "prd_feature_ids sample_load dangling_fs [''x'', ''docs''] = [''F-01'',
    ''F-02'']"
  by code_simp

lemma dangling_stories:
  "map (\<lambda>f. (story_dangling sample_load dangling_fs [''F-01'', ''F-02''] f, story_warning
      sample_load dangling_fs f))
     [[''x'', ''docs'', ''user-stories'', ''us-101.yaml''],
      [''x'', ''docs'', ''user-stories'', ''us-103.yaml''],
      [''x'', ''docs'', ''user-stories'', ''us-104.yaml'']]
   = [(True, WARN ''Story US-101 references unknown feature: F-09''),
      (False, WARN ''Story US-103 references unknown feature: F-##''),
      (False, WARN ''Story US-104 references unknown feature: F-01'')]"
  by code_simp

lemma dangling_prd:
  "truthy (loadYaml sample_load dangling_fs (join [''x'', ''docs''] ''product-requirements.yaml''))
   \<and> existsSync dangling_fs (join [''x'', ''docs''] ''user-stories'')"
  by code_simp

lemma dangling_run:
  "map_option (filter is_warning \<circ> console)
     (checkCrossReferences sample_load dangling_fs [''x'', ''docs''] True False result_init)
   = Some [WARN ''Feature F-02 (in PRD) has no specification file'',
           WARN ''Story US-101 references unknown feature: F-09'']"
  by code_simp

text \<open>On \<open>dangling_fs\<close> the story pass prints the warning for US-101 and no other.\<close>

theorem dangling_story_warnings_witness:
  "\<exists>(s1::world) s2.
       checkCrossReferences sample_load dangling_fs [''x'', ''docs''] True False result_init =
           Some s2
     \<and> console s2 = console s1 @ [WARN ''Story US-101 references unknown feature: F-09'']
     \<and> totalWarnings s2 = totalWarnings s1 + 1
     \<and> filter is_warning (console s2)
         = [WARN ''Feature F-02 (in PRD) has no specification file'',
            WARN ''Story US-101 references unknown feature: F-09'']"
proof -
  have i: "prd_feature_ids sample_load dangling_fs [''x'', ''docs''] \<noteq> []"
    by (simp add: dangling_ids)
  from dangling_story_warnings [OF dangling_prd [THEN conjunct1] i, of False result_init]
  obtain s1 :: world and s2 where
    r: "checkCrossReferences sample_load dangling_fs [''x'', ''docs''] True False result_init =
        Some s2"
    and c: "console s2 = console s1 @
         concat (map (\<lambda>f. if story_dangling sample_load dangling_fs
                               (prd_feature_ids sample_load dangling_fs [''x'', ''docs'']) f
                          then [story_warning sample_load dangling_fs f] else [])
                   (findYamlFiles dangling_fs (join [''x'', ''docs''] ''user-stories'')))"
    and w: "totalWarnings s2 = totalWarnings s1 +
         length (filter (story_dangling sample_load dangling_fs
                           (prd_feature_ids sample_load dangling_fs [''x'', ''docs'']))
                   (findYamlFiles dangling_fs (join [''x'', ''docs''] ''user-stories'')))"
    by (elim exE conjE)
  from dangling_stories have
    "console s2 = console s1 @ [WARN ''Story US-101 references unknown feature: F-09'']"
    "totalWarnings s2 = totalWarnings s1 + 1"
    by (simp_all add: c w dangling_ids dangling_files)
  moreover from dangling_run r have "filter is_warning (console s2)
         = [WARN ''Feature F-02 (in PRD) has no specification file'',
            WARN ''Story US-101 references unknown feature: F-09'']"
    by simp
  ultimately show ?thesis using r by (intro exI [of _ s1] exI [of _ s2]) simp
qed

text \<open>
  The claim as written fails when the PRD declares no feature identifier: in \<open>orphan_fs\<close>
  the story US-101 declares the reference F-09, which is not empty, not the placeholder
  and not declared by the PRD, yet the only warning is the one about the PRD.
\<close>

theorem dangling_story_counterexample:
  "story_dangling sample_load orphan_fs (prd_feature_ids sample_load orphan_fs [''o'', ''docs''])
      [''o'', ''docs'', ''user-stories'', ''us-101.yaml'']
   \<and> findYamlFiles orphan_fs (join [''o'', ''docs''] ''user-stories'')
       = [[''o'', ''docs'', ''user-stories'', ''us-101.yaml'']]
   \<and> map_option (filter is_warning \<circ> console)
        (checkCrossReferences sample_load orphan_fs [''o'', ''docs''] True False result_init)
       = Some [WARN ''No features in PRD to cross-reference'']"
  by code_simp


lemma two_ids:
  assumes "distinct ids" "set ids = {a, b}" "a \<noteq> b"
  shows "ids = [a, b] \<or> ids = [b, a]"
proof -
  from assms have "length ids = 2"
    using distinct_card [of ids] by simp
  then obtain x y where "ids = [x, y]"
    by (cases ids; cases "tl ids") auto
  with assms show ?thesis by auto
qed

lemma is_warning_feature_lines:
  "filter is_warning (feature_lines Y fs v files i)
     = (if list_ex (spec_declares Y fs i) files then []
        else [WARN (''Feature '' @ i @ '' (in PRD) has no specification file'')])"
  by (simp add: feature_lines_def is_warning_def)

text \<open>
  Claim C3, as amended. Given a PRD that loads and whose feature list declares exactly
  the feature identifiers F-01 and F-02, each once, a feature-specs directory whose only
  YAML file declares \<open>feature_id\<close> F-01, and no story file whose reference dangles (is
  not empty, is not the placeholder and is not declared by the PRD), the cross-reference
  check adds exactly one warning, which names F-02 as having no specification file, and
  adds no error.
\<close>

theorem missing_specification_warning:
  assumes prd: "truthy (loadYaml Y fs (join d ''product-requirements.yaml''))"
    and ids: "distinct (prd_feature_ids Y fs d)" "set (prd_feature_ids Y fs d) = {''F-01'',
        ''F-02''}"
    and dir: "existsSync fs (join d ''feature-specs'')"
    and files: "findYamlFiles fs (join d ''feature-specs'') = [f]"
    and spec: "spec_declares Y fs ''F-01'' f"
    and stories: "\<forall>s \<in> set (findYamlFiles fs (join d ''user-stories'')).
                    \<not> story_dangling Y fs (prd_feature_ids Y fs d) s"
  shows "\<exists>s'. checkCrossReferences Y fs d True v st = Some s'
     \<and> totalWarnings s' = totalWarnings st + 1
     \<and> totalErrors s' = totalErrors st
     \<and> filter is_warning (console s')
         = filter is_warning (console st) @ [WARN
             ''Feature F-02 (in PRD) has no specification file'']"
proof -
  let ?ids = "prd_feature_ids Y fs d"
  let ?S = "console_log (section_title ''Cross-Reference Validation'') st"
  let ?s1 = "emit (length ?ids) 0 (length (filter (\<lambda>i. \<not> list_ex (spec_declares Y fs
      i) [f]) ?ids))
               (concat (map (feature_lines Y fs v [f]) ?ids)) ?S"
  from two_ids [OF ids] have o: "?ids = [''F-01'', ''F-02''] \<or> ?ids = [''F-02'', ''F-01'']"
    by simp
  then have ne: "?ids \<noteq> []" by auto
  from spec have h1: "list_ex (spec_declares Y fs ''F-01'') [f]"
    and h2: "\<not> list_ex (spec_declares Y fs ''F-02'') [f]"
    by (simp_all add: spec_declares_def)
  from stories have nd: "filter (story_dangling Y fs ?ids) (findYamlFiles fs (join d
      ''user-stories'')) = []"
    by (simp add: filter_empty_conv)
  from stories have nl: "concat (map (\<lambda>s. if story_dangling Y fs ?ids s then
      [story_warning Y fs s] else [])
      (findYamlFiles fs (join d ''user-stories''))) = []"
    by simp
  have r: "checkCrossReferences Y fs d True v st = Some ?s1"
    by (cases "existsSync fs (join d ''user-stories'')")
       (simp_all add: checkCrossReferences_main [OF TrueI prd ne] dir files feature_loop story_loop
          nd nl emit_zero)
  from o h1 h2 have w: "length (filter (\<lambda>i. \<not> list_ex (spec_declares Y fs i) [f])
      ?ids) = 1"
    by (elim disjE) simp_all
  from o h1 h2 have l: "filter is_warning (concat (map (feature_lines Y fs v [f]) ?ids))
      = [WARN ''Feature F-02 (in PRD) has no specification file'']"
    by (elim disjE) (simp_all add: is_warning_feature_lines)
  have "totalWarnings ?s1 = totalWarnings st + 1" "totalErrors ?s1 = totalErrors st"
    "filter is_warning (console ?s1)
       = filter is_warning (console st) @ [WARN
           ''Feature F-02 (in PRD) has no specification file'']"
    using w l by (simp_all add: emit_counters console_log_emit is_warning_def)
  with r show ?thesis by (intro exI [of _ ?s1]) simp
qed

text \<open>The tree \<open>crossref_fs\<close> is such a project.\<close>

lemma crossref_facts:
  "truthy (loadYaml sample_load crossref_fs (join [''x'', ''docs''] ''product-requirements.yaml''))
   \<and> prd_feature_ids sample_load crossref_fs [''x'', ''docs''] = [''F-01'', ''F-02'']
   \<and> existsSync crossref_fs (join [''x'', ''docs''] ''feature-specs'')
   \<and> findYamlFiles crossref_fs (join [''x'', ''docs''] ''feature-specs'')
       = [[''x'', ''docs'', ''feature-specs'', ''f1.yaml'']]
   \<and> spec_declares sample_load crossref_fs ''F-01'' [''x'', ''docs'', ''feature-specs'',
       ''f1.yaml'']
   \<and> findYamlFiles crossref_fs (join [''x'', ''docs''] ''user-stories'')
       = [[''x'', ''docs'', ''user-stories'', ''us-103.yaml''],
          [''x'', ''docs'', ''user-stories'', ''us-104.yaml'']]
   \<and> \<not> story_dangling sample_load crossref_fs [''F-01'', ''F-02'']
          [''x'', ''docs'', ''user-stories'', ''us-103.yaml'']
   \<and> \<not> story_dangling sample_load crossref_fs [''F-01'', ''F-02'']
          [''x'', ''docs'', ''user-stories'', ''us-104.yaml'']"
  by code_simp

theorem missing_specification_warning_witness:
  "\<exists>s'. checkCrossReferences sample_load crossref_fs [''x'', ''docs''] True True
      result_init = Some s'
     \<and> totalWarnings s' = 1 \<and> totalErrors s' = 0
     \<and> filter is_warning (console s') = [WARN
         ''Feature F-02 (in PRD) has no specification file'']"
proof -
  note f = crossref_facts
  have ids: "distinct (prd_feature_ids sample_load crossref_fs [''x'', ''docs''])"
    "set (prd_feature_ids sample_load crossref_fs [''x'', ''docs'']) = {''F-01'', ''F-02''}"
    by (simp_all add: f [THEN conjunct2, THEN conjunct1])
  have st: "\<forall>s \<in> set (findYamlFiles crossref_fs (join [''x'', ''docs'']
      ''user-stories'')).
       \<not> story_dangling sample_load crossref_fs (prd_feature_ids sample_load crossref_fs
           [''x'', ''docs'']) s"
    using f by simp
  from f have prd: "truthy (loadYaml sample_load crossref_fs (join [''x'', ''docs'']
      ''product-requirements.yaml''))"
    and dir: "existsSync crossref_fs (join [''x'', ''docs''] ''feature-specs'')"
    and files: "findYamlFiles crossref_fs (join [''x'', ''docs''] ''feature-specs'')
       = [[''x'', ''docs'', ''feature-specs'', ''f1.yaml'']]"
    and spec: "spec_declares sample_load crossref_fs ''F-01'' [''x'', ''docs'', ''feature-specs'',
        ''f1.yaml'']"
    by simp_all
  from missing_specification_warning [OF prd ids dir files spec st, of True result_init]
  obtain s' where "checkCrossReferences sample_load crossref_fs [''x'', ''docs''] True True
      result_init = Some s'"
    "totalWarnings s' = totalWarnings result_init + 1"
    "totalErrors s' = totalErrors result_init"
    "filter is_warning (console s')
         = filter is_warning (console result_init) @ [WARN
             ''Feature F-02 (in PRD) has no specification file'']"
    by (elim exE conjE)
  then show ?thesis
    by (intro exI [of _ s']) (simp add: result_init_def)
qed

text \<open>
  The claim as written fails in two ways. In \<open>dangling_fs\<close> the PRD declares F-01 and
  F-02 and the only specification declares F-01, but a story refers to F-09: the check
  emits two warnings. In \<open>duplicate_fs\<close> the feature list of the PRD names F-02 twice:
  the warning about F-02 is emitted twice.
\<close>

theorem missing_specification_counterexample:
  "prd_feature_ids sample_load dangling_fs [''x'', ''docs''] = [''F-01'', ''F-02'']
   \<and> findYamlFiles dangling_fs (join [''x'', ''docs''] ''feature-specs'')
       = [[''x'', ''docs'', ''feature-specs'', ''f1.yaml'']]
   \<and> spec_declares sample_load dangling_fs ''F-01''
        [''x'', ''docs'', ''feature-specs'', ''f1.yaml'']
   \<and> map_option (\<lambda>s. (totalWarnings s, totalErrors s, filter is_warning (console s)))
        (checkCrossReferences sample_load dangling_fs [''x'', ''docs''] True False result_init)
       = Some (2, 0, [WARN ''Feature F-02 (in PRD) has no specification file'',
                      WARN ''Story US-101 references unknown feature: F-09''])
   \<and> prd_feature_ids sample_load duplicate_fs [''u'', ''docs''] = [''F-01'', ''F-02'', ''F-02'']
   \<and> findYamlFiles duplicate_fs (join [''u'', ''docs''] ''feature-specs'')
       = [[''u'', ''docs'', ''feature-specs'', ''f1.yaml'']]
   \<and> spec_declares sample_load duplicate_fs ''F-01''
        [''u'', ''docs'', ''feature-specs'', ''f1.yaml'']
   \<and> map_option (\<lambda>s. (totalWarnings s, totalErrors s, filter is_warning (console s)))
        (checkCrossReferences sample_load duplicate_fs [''u'', ''docs''] True False result_init)
       = Some (2, 0, [WARN ''Feature F-02 (in PRD) has no specification file'',
                      WARN ''Feature F-02 (in PRD) has no specification file''])"
  by code_simp

subsection \<open>Running the check command twice\<close>

lemma findDocsDir_same_docs:
  assumes "\<And>d. stat fs2 (join d ''docs'') = stat fs (join d ''docs'')"
  shows "findDocsDir fs2 cwd = findDocsDir fs cwd"
  by (simp add: findDocsDir_def findDocsDir_from_find isDirectory_def assms)

lemma stat_new_entry: "q \<noteq> p \<Longrightarrow> stat ((p, n) # fs) q = stat fs q"
  by (simp add: stat_def)

lemma ensureClaudeDoc_cases:
  assumes "ensureClaudeDoc m d (fs, st) = (fs1, st1)"
  shows "keep_lines (\<lambda>l. False) st1 = keep_lines (\<lambda>l. False) st
       \<and> (fs1 = fs \<or> (\<exists>c. fs1 = (join d ''CLAUDE.md'', File c) # fs))"
  using assms
  by (auto simp: ensureClaudeDoc_def Let_def writeFileSync_def console_log_emit keep_lines_emit
      emit_zero split: if_splits sum.splits)

lemma ensureClaudeDoc_installed:
  "ensureClaudeDoc m d ((join d ''CLAUDE.md'', File c) # fs, st)
     = ((join d ''CLAUDE.md'', File c) # fs, st)"
  by (simp add: ensureClaudeDoc_def existsSync_def stat_def join_def)

text \<open>
  Claim C4. Every run of the check command is a new process whose three counters start
  at zero. Two successive runs from the same working directory, the second on the file
  system the first one left, end with the same exit status and the same values of the
  three counters; the second run changes no file. (The first run may install
  \<^verbatim>\<open>CLAUDE.md\<close>, which no check reads.)
\<close>

theorem check_twice:
  "\<exists>fs1 c s1 s2.
      pdocs_check Y m cwd opts fs = (fs1, Some (c, s1))
    \<and> pdocs_check Y m cwd opts fs1 = (fs1, Some (c, s2))
    \<and> totalChecks s1 = totalChecks s2
    \<and> totalErrors s1 = totalErrors s2
    \<and> totalWarnings s1 = totalWarnings s2
    \<and> totalChecks result_init = 0 \<and> totalErrors result_init = 0 \<and> totalWarnings
        result_init = 0"
proof (cases "findDocsDir fs cwd")
  case None
  let ?r = "console_log
      ''Please run this command from a project directory containing a docs/ folder''
              (console_log ''Error: Could not find docs/ directory'' result_init)"
  from None have "pdocs_check Y m cwd opts fs = (fs, Some (1, ?r))"
    by (simp add: pdocs_check_def)
  then show ?thesis
    by (intro exI [of _ fs] exI [of _ 1] exI [of _ ?r] conjI) (simp_all add: result_init_def)
next
  case (Some d)
  let ?K = "keep_lines (\<lambda>l. False)"
  obtain fs1 st1 where e: "ensureClaudeDoc m d (fs, result_init) = (fs1, st1)"
    by (cases "ensureClaudeDoc m d (fs, result_init)")
  from check_returns [of Y fs1 d opts st1] obtain c s1 where
    r1: "check Y fs1 d opts st1 = Some (c, s1)"
    by (elim exE conjE)
  have run1: "pdocs_check Y m cwd opts fs = (fs1, Some (c, s1))"
    by (simp add: pdocs_check_def Some e r1)
  from ensureClaudeDoc_cases [OF e] have k: "?K st1 = ?K result_init"
    and w: "fs1 = fs \<or> (\<exists>c. fs1 = (join d ''CLAUDE.md'', File c) # fs)"
    by simp_all
  have "\<exists>s2. pdocs_check Y m cwd opts fs1 = (fs1, Some (c, s2)) \<and> ?K s1 = ?K s2"
    using w
  proof
    assume "fs1 = fs"
    with run1 show ?thesis by simp
  next
    assume "\<exists>c. fs1 = (join d ''CLAUDE.md'', File c) # fs"
    then obtain t where fs1: "fs1 = (join d ''CLAUDE.md'', File t) # fs" ..
    have "findDocsDir fs1 cwd = findDocsDir fs cwd"
      unfolding fs1
      by (rule findDocsDir_same_docs) (simp add: stat_new_entry join_def)
    with Some have f: "findDocsDir fs1 cwd = Some d" by simp
    have e2: "ensureClaudeDoc m d (fs1, result_init) = (fs1, result_init)"
      unfolding fs1 by (rule ensureClaudeDoc_installed)
    from check_returns [of Y fs1 d opts result_init] obtain c2 s2 where
      r2: "check Y fs1 d opts result_init = Some (c2, s2)"
      by (elim exE conjE)
    have "map_option (apsnd ?K) (check Y fs1 d opts st1)
        = map_option (apsnd ?K) (check Y fs1 d opts result_init)"
      by (rule check_sim [OF _ k]) (simp_all add: drops_verbose_def)
    with r1 r2 have "c2 = c" "?K s1 = ?K s2" by simp_all
    moreover have "pdocs_check Y m cwd opts fs1 = (fs1, Some (c2, s2))"
      by (simp add: pdocs_check_def f e2 r2)
    ultimately show ?thesis by simp
  qed
  then obtain s2 where run2: "pdocs_check Y m cwd opts fs1 = (fs1, Some (c, s2))"
    and k2: "?K s1 = ?K s2"
    by (elim exE conjE)
  from keep_lines_eq_counters [OF k2] run1 run2 show ?thesis
    by (simp add: result_init_def)
qed

text \<open>
  The first run on \<open>project_fs\<close>, started in \<^verbatim>\<open>/c/docs/feature-specs\<close>: the root is
  found, \<^verbatim>\<open>CLAUDE.md\<close> is installed, and the checks give status 0, five checks, no error
  and four warnings.
\<close>

lemma project_found:
  "findDocsDir project_fs [''c'', ''docs'', ''feature-specs''] = Some [''c'', ''docs'']"
  by code_simp

lemma project_install:
  "ensureClaudeDoc [''opt'', ''pdocs'', ''dist'', ''src''] [''c'', ''docs''] (project_fs,
      result_init)
     = (([''c'', ''docs'', ''CLAUDE.md''], File ''# Project Documentation Guide'') # project_fs,
        console_log (tick @ '' Installed CLAUDE.md in docs/ directory'') result_init)"
  by code_simp

lemma project_installed_run:
  "map_option outcome
     (check sample_load
        (([''c'', ''docs'', ''CLAUDE.md''], File ''# Project Documentation Guide'') # project_fs)
        [''c'', ''docs''] \<lparr>verbose = False, checkLinks = True, format = ''summary''\<rparr>
        (console_log (tick @ '' Installed CLAUDE.md in docs/ directory'') result_init))
     = Some (0, 5, 0, 4)"
  by code_simp

text \<open>Both runs end with status 0 and the counters 5, 0 and 4.\<close>

theorem check_twice_witness:
  "\<exists>s1 s2.
      pdocs_check sample_load [''opt'', ''pdocs'', ''dist'', ''src''] [''c'', ''docs'',
          ''feature-specs'']
        \<lparr>verbose = False, checkLinks = True, format = ''summary''\<rparr> project_fs
        = (([''c'', ''docs'', ''CLAUDE.md''], File ''# Project Documentation Guide'') # project_fs,
           Some (0, s1))
    \<and> pdocs_check sample_load [''opt'', ''pdocs'', ''dist'', ''src''] [''c'', ''docs'',
        ''feature-specs'']
        \<lparr>verbose = False, checkLinks = True, format = ''summary''\<rparr>
        (([''c'', ''docs'', ''CLAUDE.md''], File ''# Project Documentation Guide'') # project_fs)
        = (([''c'', ''docs'', ''CLAUDE.md''], File ''# Project Documentation Guide'') # project_fs,
           Some (0, s2))
    \<and> totalChecks s1 = 5 \<and> totalChecks s2 = 5
    \<and> totalErrors s1 = 0 \<and> totalErrors s2 = 0
    \<and> totalWarnings s1 = 4 \<and> totalWarnings s2 = 4"
proof -
  let ?m = "[''opt'', ''pdocs'', ''dist'', ''src'']"
  let ?cwd = "[''c'', ''docs'', ''feature-specs'']"
  let ?o = "\<lparr>verbose = False, checkLinks = True, format = ''summary''\<rparr>"
  let ?fs1 = "([''c'', ''docs'', ''CLAUDE.md''], File ''# Project Documentation Guide'') #
      project_fs"
  have p: "pdocs_check sample_load ?m ?cwd ?o project_fs
      = (?fs1, check sample_load ?fs1 [''c'', ''docs''] ?o
                 (console_log (tick @ '' Installed CLAUDE.md in docs/ directory'') result_init))"
    by (simp add: pdocs_check_def project_found project_install)
  from check_twice [of sample_load ?m ?cwd ?o project_fs]
  obtain fs1 c s1 s2 where
    1: "pdocs_check sample_load ?m ?cwd ?o project_fs = (fs1, Some (c, s1))"
    and 2: "pdocs_check sample_load ?m ?cwd ?o fs1 = (fs1, Some (c, s2))"
    and e: "totalChecks s1 = totalChecks s2" "totalErrors s1 = totalErrors s2"
      "totalWarnings s1 = totalWarnings s2"
    by (elim exE conjE)
  from 1 p have fs1: "fs1 = ?fs1"
    by simp
  from 1 p have r: "check sample_load ?fs1 [''c'', ''docs''] ?o
                 (console_log (tick @ '' Installed CLAUDE.md in docs/ directory'') result_init)
            = Some (c, s1)"
    unfolding fs1 by simp
  from project_installed_run r have
    v: "c = 0" "totalChecks s1 = 5" "totalErrors s1 = 0" "totalWarnings s1 = 4"
    by (simp_all add: outcome_def)
  from 1 2 e v show ?thesis
    unfolding fs1 by (intro exI [of _ s1] exI [of _ s2]) simp
qed

end
